theory Spec2Isabelle
  imports Complex_Main "HOL-Library.AList" "HOL-Library.Product_Lexorder" "HOL-Library.Multiset"
begin

section \<open>Values of the numeric library\<close>

text \<open>
  A float64 as the analytics code sees it: a finite value, one of the two infinities, or
  NaN. Rounding and overflow are abstracted away: a finite value is an exact real, zero is
  unsigned. Missing data in a pandas series or frame is the value NaN.
\<close>

datatype fl = Fin real | PInf | NInf | NaN

definition is_nan :: "fl \<Rightarrow> bool" where
  "is_nan x = (x = NaN)"

definition is_finite :: "fl \<Rightarrow> bool" where
  "is_finite x = (case x of Fin _ \<Rightarrow> True | _ \<Rightarrow> False)"

definition the_real :: "fl \<Rightarrow> real" where
  "the_real x = (case x of Fin r \<Rightarrow> r | _ \<Rightarrow> 0)"

text \<open>Python truthiness of a float: everything but zero (NaN and the infinities are true).\<close>

definition truthy :: "fl \<Rightarrow> bool" where
  "truthy x = (x \<noteq> Fin 0)"

fun positive :: "fl \<Rightarrow> bool" where
  "positive (Fin a) = (0 < a)"
| "positive PInf = True"
| "positive NInf = False"
| "positive NaN = False"

fun fneg :: "fl \<Rightarrow> fl" where
  "fneg (Fin a) = Fin (- a)"
| "fneg PInf = NInf"
| "fneg NInf = PInf"
| "fneg NaN = NaN"

fun fadd :: "fl \<Rightarrow> fl \<Rightarrow> fl" where
  "fadd NaN y = NaN"
| "fadd x NaN = NaN"
| "fadd (Fin a) (Fin b) = Fin (a + b)"
| "fadd PInf NInf = NaN"
| "fadd NInf PInf = NaN"
| "fadd PInf y = PInf"
| "fadd NInf y = NInf"
| "fadd (Fin a) y = y"

definition fsub :: "fl \<Rightarrow> fl \<Rightarrow> fl" where
  "fsub x y = fadd x (fneg y)"

fun fmul :: "fl \<Rightarrow> fl \<Rightarrow> fl" where
  "fmul NaN y = NaN"
| "fmul x NaN = NaN"
| "fmul (Fin a) (Fin b) = Fin (a * b)"
| "fmul x y =
     (if x = Fin 0 \<or> y = Fin 0 then NaN
      else if positive x = positive y then PInf else NInf)"

text \<open>
  Division as numpy does it on arrays: a zero divisor gives an infinity (NaN for 0/0), no
  exception. The Python-level divisions of the source (\<open>latest / first\<close>,
  \<open>mean / std\<close>, \<open>1.0 / len(symbols)\<close>) are guarded against a zero divisor
  by the source itself and agree with this function on every other divisor.
\<close>

fun fdiv :: "fl \<Rightarrow> fl \<Rightarrow> fl" where
  "fdiv NaN y = NaN"
| "fdiv x NaN = NaN"
| "fdiv (Fin a) (Fin b) =
     (if b = 0 then (if a = 0 then NaN else if 0 < a then PInf else NInf)
      else Fin (a / b))"
| "fdiv (Fin a) y = Fin 0"
| "fdiv x (Fin b) = (if positive x = (0 \<le> b) then PInf else NInf)"
| "fdiv x y = NaN"

fun fsqrt :: "fl \<Rightarrow> fl" where
  "fsqrt (Fin a) = (if a < 0 then NaN else Fin (sqrt a))"
| "fsqrt PInf = PInf"
| "fsqrt NInf = NaN"
| "fsqrt NaN = NaN"

definition fsum :: "fl list \<Rightarrow> fl" where
  "fsum xs = fold (\<lambda>x acc. fadd acc x) xs (Fin 0)"

text \<open>The order numpy sorts floats in: NaN last.\<close>

fun fl_key :: "fl \<Rightarrow> nat \<times> real" where
  "fl_key NInf = (0, 0)"
| "fl_key (Fin a) = (1, a)"
| "fl_key PInf = (2, 0)"
| "fl_key NaN = (3, 0)"

text \<open>\<open>Series.dropna()\<close>: the non-missing values; an infinity is not missing.\<close>

definition dropna :: "fl list \<Rightarrow> fl list" where
  "dropna xs = filter (\<lambda>x. \<not> is_nan x) xs"

text \<open>A pandas timestamp (nanoseconds since the epoch) or NaT; NaT sorts last.\<close>

datatype stamp = At int | NaT

fun stamp_key :: "stamp \<Rightarrow> nat \<times> int" where
  "stamp_key (At n) = (0, n)"
| "stamp_key NaT = (1, 0)"

section \<open>Strings\<close>

text \<open>\<open>str.upper()\<close> and \<open>str.strip()\<close> on ASCII text.\<close>

definition upper_char :: "char \<Rightarrow> char" where
  "upper_char c =
     (let n = (of_char c :: nat) in if 97 \<le> n \<and> n \<le> 122 then char_of (n - 32) else c)"

definition upper :: "string \<Rightarrow> string" where
  "upper s = map upper_char s"

definition is_space :: "char \<Rightarrow> bool" where
  "is_space c = (let n = (of_char c :: nat) in (9 \<le> n \<and> n \<le> 13) \<or> (28 \<le> n \<and> n \<le> 32))"

definition strip :: "string \<Rightarrow> string" where
  "strip s = rev (dropWhile is_space (rev (dropWhile is_space s)))"

section \<open>Payloads, exceptions and the library environment\<close>

text \<open>A JSON scalar of a fetched payload, and one observation (a JSON object).\<close>

datatype scalar = SNull | SNum fl | SStr string

type_synonym observation = "(string \<times> scalar) list"

text \<open>
  The dict \<open>get_historical\<close> returns: the keys the analytics read. A field that is
  \<open>None\<close> is a key the dict does not have; \<open>pvalues\<close> is
  \<open>ts_json.get('values', [])\<close>.
\<close>

record payload =
  status :: "scalar option"
  pvalues :: "observation list"
  symbol :: "scalar option"

datatype exn =
    RuntimeError string
  | KeyError string
  | ValueError string
  | TypeError string
  | OverflowError string
  | LibraryError string

text \<open>\<open>str(exc)\<close>: a KeyError prints the repr of its key.\<close>

fun str_exn :: "exn \<Rightarrow> string" where
  "str_exn (KeyError k) = [CHR 0x27] @ k @ [CHR 0x27]"
| "str_exn (RuntimeError m) = m"
| "str_exn (ValueError m) = m"
| "str_exn (TypeError m) = m"
| "str_exn (OverflowError m) = m"
| "str_exn (LibraryError m) = m"

text \<open>A price or returns panel (a DataFrame): column labels, and the rows in index order.\<close>

record frame =
  columns :: "string list"
  rows :: "(stamp \<times> fl list) list"

datatype json =
    JNull
  | JNum fl
  | JStr string
  | JObj "(string \<times> json) list"

text \<open>
  What the code calls and this repository does not define, as parameters: the data source
  (\<open>data_fetcher.get_historical\<close>, a function of symbol, interval and output size:
  its cache is transparent), \<open>pd.to_datetime\<close> on a column (it raises on text it
  cannot parse), the parsing of one string by \<open>pd.to_numeric\<close>, whether
  \<open>pct_change\<close> forward-fills gaps first (the library's default changed between
  versions), \<open>HRPOpt(returns).optimize()\<close>, the text of a payload in an f-string,
  \<open>json.dumps\<close> and \<open>int\<close> on a string.
\<close>

record env =
  get_historical :: "string \<Rightarrow> string option \<Rightarrow> int option \<Rightarrow> exn + payload"
  to_datetime :: "scalar option list \<Rightarrow> exn + stamp list"
  parse_float :: "string \<Rightarrow> fl option"
  pad_returns :: bool
  hrp_optimize :: "frame \<Rightarrow> exn + (string \<times> fl) list"
  str_payload :: "payload \<Rightarrow> string"
  json_dumps :: "json \<Rightarrow> string"
  int_of_str :: "string \<Rightarrow> int option"

section \<open>Series Normalizer: \<open>_ts_to_series\<close>\<close>

type_synonym series = "(stamp \<times> fl) list"

text \<open>A column of \<open>pd.DataFrame(values)\<close>: a key an observation lacks is missing.\<close>

definition has_column :: "string \<Rightarrow> observation list \<Rightarrow> bool" where
  "has_column k obs = list_ex (\<lambda>ob. map_of ob k \<noteq> None) obs"

definition df_column :: "string \<Rightarrow> observation list \<Rightarrow> scalar option list" where
  "df_column k obs = map (\<lambda>ob. map_of ob k) obs"

text \<open>\<open>pd.to_numeric(..., errors='coerce')\<close> on one cell: what does not parse is NaN.\<close>

fun to_numeric :: "env \<Rightarrow> scalar option \<Rightarrow> fl" where
  "to_numeric e None = NaN"
| "to_numeric e (Some SNull) = NaN"
| "to_numeric e (Some (SNum x)) = x"
| "to_numeric e (Some (SStr s)) = (case parse_float e s of Some x \<Rightarrow> x | None \<Rightarrow> NaN)"

text \<open>
  The index of the frame: the \<open>datetime\<close> column, else the \<open>timestamp\<close> column,
  else the positions, through \<open>pd.to_datetime\<close> (positions are read as nanoseconds).
  Assigning an index of the wrong length raises.
\<close>

definition series_index :: "env \<Rightarrow> observation list \<Rightarrow> exn + stamp list" where
  "series_index e obs =
     (if has_column ''datetime'' obs \<or> has_column ''timestamp'' obs then
        (case to_datetime e
                (df_column (if has_column ''datetime'' obs then ''datetime'' else ''timestamp'') obs) of
           Inl err \<Rightarrow> Inl err
         | Inr idx \<Rightarrow>
             if length idx = length obs then Inr idx
             else Inl (ValueError ''Length mismatch''))
      else Inr (map (\<lambda>i. At (int i)) [0..<length obs]))"

definition ts_to_series :: "env \<Rightarrow> payload \<Rightarrow> exn + series" where
  "ts_to_series e ts_json =
     (let vals = pvalues ts_json in
      if vals = [] then Inr []
      else
        (case series_index e vals of
           Inl err \<Rightarrow> Inl err
         | Inr idx \<Rightarrow>
             if \<not> has_column ''close'' vals then Inl (KeyError ''close'')
             else Inr (sort_key (\<lambda>p. stamp_key (fst p))
                        (zip idx (map (to_numeric e) (df_column ''close'' vals))))))"

section \<open>Panel Builder\<close>

text \<open>
  The index \<open>pd.concat(..., axis=1, join='outer')\<close> gives the frame: the union of the
  series' indexes, a label as often as the series that repeats it most. The library sorts
  the union when every index is a DatetimeIndex; the index of an empty series is not one,
  and then the labels stay in order of first appearance.
\<close>

definition union2 :: "bool \<Rightarrow> stamp list \<Rightarrow> stamp list \<Rightarrow> stamp list" where
  "union2 sorting a b =
     (let u = a @ fold remove1 a b in if sorting then sort_key stamp_key u else u)"

definition union_index :: "stamp list list \<Rightarrow> stamp list" where
  "union_index idxs =
     (case idxs of
        [] \<Rightarrow> []
      | i # rest \<Rightarrow> fold (\<lambda>b a. union2 (\<not> list_ex (\<lambda>j. j = []) idxs) a b) rest i)"

text \<open>
  A series is aligned to the frame's index: kept as it is when its index is that index,
  refused when its own index repeats a label, and looked up label by label otherwise
  (a label it lacks is missing).
\<close>

definition reindex :: "stamp list \<Rightarrow> series \<Rightarrow> exn + fl list" where
  "reindex u s =
     (if map fst s = u then Inr (map snd s)
      else if \<not> distinct (map fst s)
        then Inl (ValueError ''cannot reindex on an axis with duplicate labels'')
      else Inr (map (\<lambda>t. case map_of s t of Some v \<Rightarrow> v | None \<Rightarrow> NaN) u))"

fun collect :: "(exn + 'a) list \<Rightarrow> exn + 'a list" where
  "collect [] = Inr []"
| "collect (Inl err # rest) = Inl err"
| "collect (Inr x # rest) = (case collect rest of Inl err \<Rightarrow> Inl err | Inr xs \<Rightarrow> Inr (x # xs))"

definition concat_axis1 :: "(string \<times> series) list \<Rightarrow> exn + frame" where
  "concat_axis1 sm =
     (let u = union_index (map (\<lambda>p. map fst (snd p)) sm) in
      case collect (map (\<lambda>p. reindex u (snd p)) sm) of
        Inl err \<Rightarrow> Inl err
      | Inr cols \<Rightarrow>
          Inr \<lparr>columns = map fst sm,
               rows = map (\<lambda>k. (u ! k, map (\<lambda>c. c ! k) cols)) [0..<length u]\<rparr>)"

text \<open>\<open>DataFrame.dropna(how='all')\<close>: a row goes when every cell of it is missing.\<close>

definition dropna_all :: "frame \<Rightarrow> frame" where
  "dropna_all f = f\<lparr>rows := filter (\<lambda>r. \<not> list_all is_nan (snd r)) (rows f)\<rparr>"

text \<open>Forward fill, column by column: a missing cell takes the last value above it.\<close>

fun ffill_rows :: "fl list \<Rightarrow> (stamp \<times> fl list) list \<Rightarrow> (stamp \<times> fl list) list" where
  "ffill_rows prev [] = []"
| "ffill_rows prev ((t, r) # rest) =
     (let r' = map2 (\<lambda>p x. if is_nan x then p else x) prev r
      in (t, r') # ffill_rows r' rest)"

text \<open>\<open>data / data.shift(1) - 1\<close>, row over row; the first row has nothing above it.\<close>

fun pct_rows :: "fl list \<Rightarrow> (stamp \<times> fl list) list \<Rightarrow> (stamp \<times> fl list) list" where
  "pct_rows prev [] = []"
| "pct_rows prev ((t, r) # rest) =
     (t, map2 (\<lambda>p c. fsub (fdiv c p) (Fin 1)) prev r) # pct_rows r rest"

definition pct_change :: "bool \<Rightarrow> frame \<Rightarrow> frame" where
  "pct_change pad f =
     (let blank = replicate (length (columns f)) NaN;
          data = (if pad then ffill_rows blank (rows f) else rows f)
      in f\<lparr>rows := pct_rows blank data\<rparr>)"

definition frame_empty :: "frame \<Rightarrow> bool" where
  "frame_empty f = (rows f = [] \<or> columns f = [])"

definition column :: "nat \<Rightarrow> frame \<Rightarrow> fl list" where
  "column j f = map (\<lambda>r. snd r ! j) (rows f)"

text \<open>
  The loop both analytics functions start with: fetch each symbol, abort on an explicit
  error status, normalize, and store the series under the upper-cased symbol.
\<close>

fun fetch_series ::
  "env \<Rightarrow> string option \<Rightarrow> int option \<Rightarrow> string list \<Rightarrow> (string \<times> series) list
     \<Rightarrow> exn + (string \<times> series) list" where
  "fetch_series e interval outputsize [] series_map = Inr series_map"
| "fetch_series e interval outputsize (symb # rest) series_map =
     (case get_historical e symb interval outputsize of
        Inl err \<Rightarrow> Inl err
      | Inr ts \<Rightarrow>
          if status ts = Some (SStr ''error'')
          then Inl (RuntimeError (''Error fetching '' @ symb @ '': '' @ str_payload e ts))
          else (case ts_to_series e ts of
                  Inl err \<Rightarrow> Inl err
                | Inr s \<Rightarrow>
                    fetch_series e interval outputsize rest
                      (AList.update (upper symb) s series_map)))"

text \<open>The price panel and the returns panel, as both functions build them.\<close>

definition build_panels :: "env \<Rightarrow> (string \<times> series) list \<Rightarrow> exn + frame \<times> frame" where
  "build_panels e series_map =
     (case concat_axis1 series_map of
        Inl err \<Rightarrow> Inl err
      | Inr f \<Rightarrow>
          (let prices = dropna_all (f\<lparr>columns := map upper (columns f)\<rparr>);
               returns = dropna_all (pct_change (pad_returns e) prices)
           in Inr (prices, returns)))"

section \<open>Metrics Engine\<close>

record metrics =
  latest :: "fl option"
  cumulative_return :: "fl option"
  volatility :: "fl option"
  sharpe :: "fl option"
  var_95 :: "fl option"

definition fmean :: "fl list \<Rightarrow> fl" where
  "fmean r = fdiv (fsum r) (Fin (real (length r)))"

text \<open>\<open>Series.std(ddof=0)\<close>: the population standard deviation.\<close>

definition fstd0 :: "fl list \<Rightarrow> fl" where
  "fstd0 r =
     (let avg = fmean r
      in fsqrt (fdiv (fsum (map (\<lambda>x. fmul (fsub avg x) (fsub avg x)) r))
                     (Fin (real (length r)))))"

text \<open>\<open>np.percentile(r, q)\<close>, linear interpolation between the two nearest ranks.\<close>

definition percentile :: "fl list \<Rightarrow> real \<Rightarrow> fl" where
  "percentile r q =
     (let srt = sort_key fl_key r;
          n = length r;
          vi = real (n - 1) * q / 100;
          lo = nat \<lfloor>vi\<rfloor>;
          hi = min (lo + 1) (n - 1);
          g = vi - real lo;
          a = srt ! lo;
          b = srt ! hi;
          d = fsub b a
      in if 1 / 2 \<le> g then fsub b (fmul d (Fin (1 - g))) else fadd a (fmul d (Fin g)))"

definition daily_intervals :: "string option list" where
  "daily_intervals = [None, Some ''1day'', Some ''1D'', Some ''1d'']"

text \<open>
  The body of the loop over \<open>prices.columns\<close>, for one column of the price panel and
  the same column of the returns panel.
\<close>

definition symbol_metrics :: "string option \<Rightarrow> fl list \<Rightarrow> fl list \<Rightarrow> metrics" where
  "symbol_metrics interval prices_col returns_col =
     (let col_prices = dropna prices_col in
      if col_prices = [] then
        \<lparr>latest = None, cumulative_return = None, volatility = None, sharpe = None,
         var_95 = None\<rparr>
      else
        (let latest = last col_prices;
             first = hd col_prices;
             cum_return = (if first \<noteq> Fin 0 then Some (fsub (fdiv latest first) (Fin 1)) else None);
             r = dropna returns_col;
             mean = (if r \<noteq> [] then fmean r else Fin 0);
             std = (if r \<noteq> [] then fstd0 r else Fin 0);
             volatility = (if truthy std \<and> interval \<in> set daily_intervals
                           then fmul std (Fin (sqrt 252)) else std);
             sharpe = (if truthy std \<and> std \<noteq> Fin 0 then Some (fdiv mean std) else None);
             var_95 = (if r \<noteq> [] then Some (percentile r 5) else None)
         in \<lparr>latest = Some latest, cumulative_return = cum_return,
             volatility = Some volatility, sharpe = sharpe, var_95 = var_95\<rparr>))"

text \<open>
  The loop: column labels of the panels are distinct (they are the keys of a dict), so a
  column is addressed by its position.
\<close>

definition all_metrics :: "string option \<Rightarrow> frame \<Rightarrow> frame \<Rightarrow> (string \<times> metrics) list" where
  "all_metrics interval prices returns =
     fold (\<lambda>(j, col) m. AList.update col
             (symbol_metrics interval (column j prices) (column j returns)) m)
       (zip [0..<length (columns prices)] (columns prices)) []"

section \<open>Correlation Engine\<close>

text \<open>
  \<open>DataFrame.corr()\<close>: Pearson correlation of two columns over the rows where both
  are finite, NaN when no row is left or a variance is zero, clipped to [-1, 1].
\<close>

definition pearson :: "(real \<times> real) list \<Rightarrow> fl" where
  "pearson ps =
     (let n = real (length ps);
          mx = sum_list (map fst ps) / n;
          my = sum_list (map snd ps) / n;
          ssx = sum_list (map (\<lambda>p. (fst p - mx) * (fst p - mx)) ps);
          ssy = sum_list (map (\<lambda>p. (snd p - my) * (snd p - my)) ps);
          cov = sum_list (map (\<lambda>p. (fst p - mx) * (snd p - my)) ps);
          divisor = sqrt (ssx * ssy)
      in if ps = [] then NaN
         else if divisor \<noteq> 0 then Fin (max (- 1) (min 1 (cov / divisor)))
         else NaN)"

definition finite_pairs :: "fl list \<Rightarrow> fl list \<Rightarrow> (real \<times> real) list" where
  "finite_pairs xs ys =
     map (\<lambda>p. (the_real (fst p), the_real (snd p)))
       (filter (\<lambda>p. is_finite (fst p) \<and> is_finite (snd p)) (zip xs ys))"

definition corr_entry :: "frame \<Rightarrow> nat \<Rightarrow> nat \<Rightarrow> fl" where
  "corr_entry returns i j = pearson (finite_pairs (column i returns) (column j returns))"

definition fillna0 :: "fl \<Rightarrow> fl" where
  "fillna0 x = (if is_nan x then Fin 0 else x)"

text \<open>\<open>np.round\<close>: to the nearest multiple of the unit, a tie to the even one.\<close>

definition rint :: "real \<Rightarrow> int" where
  "rint x =
     (let f = \<lfloor>x\<rfloor>; d = x - of_int f
      in if d < 1 / 2 then f else if 1 / 2 < d then f + 1 else if even f then f else f + 1)"

fun round4 :: "fl \<Rightarrow> fl" where
  "round4 (Fin x) = Fin (of_int (rint (x * 10000)) / 10000)"
| "round4 v = v"

text \<open>
  \<open>returns.corr().fillna(0.0).round(4).to_dict()\<close>: for each column label, the
  mapping from row label to entry.
\<close>

definition correlation :: "frame \<Rightarrow> (string \<times> (string \<times> fl) list) list" where
  "correlation returns =
     (let cols = zip [0..<length (columns returns)] (columns returns)
      in fold (\<lambda>(j, c) outer. AList.update c
                 (fold (\<lambda>(i, r) inner. AList.update r
                          (round4 (fillna0 (corr_entry returns i j))) inner) cols [])
                 outer)
           cols [])"

section \<open>The two analytics functions\<close>

record comparison =
  cmp_metrics :: "(string \<times> metrics) list"
  cmp_correlation :: "(string \<times> (string \<times> fl) list) list"

text \<open>\<open>compare_symbols\<close>; the empty dict of an empty request is \<open>None\<close>.\<close>

definition compare_symbols ::
  "env \<Rightarrow> string list \<Rightarrow> string option \<Rightarrow> int option \<Rightarrow> exn + comparison option" where
  "compare_symbols e symbols interval outputsize =
     (case fetch_series e interval outputsize symbols [] of
        Inl err \<Rightarrow> Inl err
      | Inr series_map \<Rightarrow>
          if series_map = [] then Inr None
          else (case build_panels e series_map of
                  Inl err \<Rightarrow> Inl err
                | Inr (prices, returns) \<Rightarrow>
                    Inr (Some \<lparr>cmp_metrics = all_metrics interval prices returns,
                               cmp_correlation = correlation returns\<rparr>)))"

text \<open>The dict comprehension of the fallback: a key written twice is one entry.\<close>

definition equal_weights :: "string list \<Rightarrow> (string \<times> fl) list" where
  "equal_weights symbols =
     fold (\<lambda>symb d. AList.update symb (fdiv (Fin 1) (Fin (real (length symbols)))) d) symbols []"

definition hierarchical_risk_parity_portfolio ::
  "env \<Rightarrow> string list \<Rightarrow> string option \<Rightarrow> int option \<Rightarrow> exn + (string \<times> fl) list" where
  "hierarchical_risk_parity_portfolio e symbols interval outputsize =
     (case fetch_series e interval outputsize symbols [] of
        Inl err \<Rightarrow> Inl err
      | Inr series_map \<Rightarrow>
          if series_map = [] then Inr []
          else (case build_panels e series_map of
                  Inl err \<Rightarrow> Inl err
                | Inr (prices, returns) \<Rightarrow>
                    if frame_empty returns \<or> length (columns returns) < 2
                    then Inr (equal_weights symbols)
                    else hrp_optimize e returns))"

section \<open>The tool dispatcher: \<open>handle_call_tool\<close>\<close>

record text_content =
  tc_type :: string
  tc_text :: string

text \<open>
  The arguments of a tool call: \<open>symbols\<close> as the input schema declares it (a list of
  strings, or absent), \<open>interval\<close>, and \<open>outputsize\<close> as any JSON value, since the
  code converts it itself.
\<close>

datatype jarg = AInt int | AFloat fl | AStr string | AOther

record arguments =
  arg_symbols :: "string list option"
  arg_interval :: "string option"
  arg_outputsize :: "jarg option"

text \<open>Python's \<open>int(x)\<close>.\<close>

fun py_int :: "env \<Rightarrow> jarg \<Rightarrow> exn + int" where
  "py_int e (AInt n) = Inr n"
| "py_int e (AFloat (Fin x)) = Inr (if 0 \<le> x then \<lfloor>x\<rfloor> else \<lceil>x\<rceil>)"
| "py_int e (AFloat NaN) = Inl (ValueError ''cannot convert float NaN to integer'')"
| "py_int e (AFloat v) = Inl (OverflowError ''cannot convert float infinity to integer'')"
| "py_int e (AStr s) =
     (case int_of_str e s of
        Some n \<Rightarrow> Inr n
      | None \<Rightarrow> Inl (ValueError ''invalid literal for int()''))"
| "py_int e AOther = Inl (TypeError ''int() argument must be a string or a number'')"

definition opt_json :: "fl option \<Rightarrow> json" where
  "opt_json v = (case v of None \<Rightarrow> JNull | Some x \<Rightarrow> JNum x)"

definition metrics_json :: "metrics \<Rightarrow> json" where
  "metrics_json m =
     JObj [(''latest'', opt_json (latest m)),
           (''cumulative_return'', opt_json (cumulative_return m)),
           (''volatility'', opt_json (volatility m)),
           (''sharpe'', opt_json (sharpe m)),
           (''var_95'', opt_json (var_95 m))]"

definition weights_json :: "(string \<times> fl) list \<Rightarrow> json" where
  "weights_json w = JObj (map (\<lambda>p. (fst p, JNum (snd p))) w)"

definition comparison_json :: "comparison option \<Rightarrow> json" where
  "comparison_json c =
     (case c of
        None \<Rightarrow> JObj []
      | Some r \<Rightarrow>
          JObj [(''metrics'', JObj (map (\<lambda>p. (fst p, metrics_json (snd p))) (cmp_metrics r))),
                (''correlation'',
                   JObj (map (\<lambda>p. (fst p, weights_json (snd p))) (cmp_correlation r)))])"

definition reply :: "env \<Rightarrow> json \<Rightarrow> text_content list" where
  "reply e j = [\<lparr>tc_type = ''text'', tc_text = json_dumps e j\<rparr>]"

definition error_reply :: "env \<Rightarrow> string \<Rightarrow> text_content list" where
  "error_reply e msg = reply e (JObj [(''error'', JStr msg)])"

definition missing_symbols_message :: string where
  "missing_symbols_message =
     ''missing symbols parameter, provide list like ['' @ [CHR 0x27] @ ''AAPL'' @ [CHR 0x27]
       @ '', '' @ [CHR 0x27] @ ''MSFT'' @ [CHR 0x27] @ '']''"

text \<open>
  \<open>outputsize = arguments.get("outputsize")\<close>, converted by \<open>int\<close> when it
  is not \<open>None\<close>.
\<close>

definition outputsize_of :: "env \<Rightarrow> arguments \<Rightarrow> exn + int option" where
  "outputsize_of e args =
     (case arg_outputsize args of
        None \<Rightarrow> Inr None
      | Some v \<Rightarrow> (case py_int e v of Inl err \<Rightarrow> Inl err | Inr n \<Rightarrow> Inr (Some n)))"

text \<open>
  The branch of one analytic tool; the source writes it out twice, once per tool, with
  \<open>analyse\<close> the analytics function called and rendered. The only exception that
  reaches the outer handler is the one \<open>int\<close> raises outside the two kinds its own
  handler catches.
\<close>

definition analytic_tool ::
  "env \<Rightarrow> string \<Rightarrow> arguments
     \<Rightarrow> (string list \<Rightarrow> string option \<Rightarrow> int option \<Rightarrow> exn + json) \<Rightarrow> text_content list" where
  "analytic_tool e name args analyse =
     (let symbols = (case arg_symbols args of None \<Rightarrow> [] | Some l \<Rightarrow> l) in
      if symbols = [] then error_reply e missing_symbols_message
      else
        (let syms = map (\<lambda>s. upper (strip s)) (filter (\<lambda>s. strip s \<noteq> []) symbols) in
         if syms = [] then error_reply e ''no valid symbols provided''
         else
           (case outputsize_of e args of
              Inl (OverflowError m) \<Rightarrow>
                error_reply e (''Error executing '' @ name @ '': '' @ m)
            | Inl err \<Rightarrow> error_reply e ''outputsize must be an integer''
            | Inr outputsize \<Rightarrow>
                (case analyse syms (arg_interval args) outputsize of
                   Inl exc \<Rightarrow> error_reply e (''Analysis failed: '' @ str_exn exc)
                 | Inr result \<Rightarrow> reply e result))))"

definition handle_call_tool :: "env \<Rightarrow> string \<Rightarrow> arguments \<Rightarrow> text_content list" where
  "handle_call_tool e name args =
     (if name = ''compare_stocks'' then
        analytic_tool e name args
          (\<lambda>syms interval outputsize.
             case compare_symbols e syms interval outputsize of
               Inl exc \<Rightarrow> Inl exc | Inr r \<Rightarrow> Inr (comparison_json r))
      else if name = ''hierarchical_risk_parity_portfolio'' then
        analytic_tool e name args
          (\<lambda>syms interval outputsize.
             case hierarchical_risk_parity_portfolio e syms interval outputsize of
               Inl exc \<Rightarrow> Inl exc | Inr w \<Rightarrow> Inr (weights_json w))
      else if name = ''health_check'' then reply e (JObj [(''status'', JStr ''ok'')])
      else error_reply e (''Unknown tool: '' @ name))"

section \<open>Notions the statements use\<close>

text \<open>
  The symbols of a list all fetch and normalize: the data source answers each with a
  payload that carries no error status and that \<open>_ts_to_series\<close> accepts.
\<close>

definition fetches_clean :: "env \<Rightarrow> string option \<Rightarrow> int option \<Rightarrow> string list \<Rightarrow> bool" where
  "fetches_clean e interval outputsize syms =
     list_all (\<lambda>s. case get_historical e s interval outputsize of
                      Inl err \<Rightarrow> False
                    | Inr ts \<Rightarrow>
                        status ts \<noteq> Some (SStr ''error'')
                        \<and> (case ts_to_series e ts of Inl err \<Rightarrow> False | Inr srs \<Rightarrow> True))
       syms"

text \<open>\<open>corr_out[a][b]\<close>: an entry of the nested mapping, \<open>None\<close> for a missing key.\<close>

definition entry_of :: "(string \<times> (string \<times> fl) list) list \<Rightarrow> string \<Rightarrow> string \<Rightarrow> fl option" where
  "entry_of m a b = (case map_of m a of None \<Rightarrow> None | Some inner \<Rightarrow> map_of inner b)"

text \<open>The finite values of a column are not all the same value.\<close>

definition has_spread :: "fl list \<Rightarrow> bool" where
  "has_spread xs = (let fs = filter is_finite xs in list_ex (\<lambda>x. x \<noteq> hd fs) fs)"

section \<open>A concrete environment for the examples\<close>

text \<open>
  A small data source and stand-ins for the library calls, to run the model on: symbol
  AAA has closes 0 then 5, BBB has closes 1, 2, 4, CCC has closes 1, 3, 3, ERR answers
  with an error status, every other symbol has no observations.
\<close>

definition obs :: "int \<Rightarrow> string \<Rightarrow> observation" where
  "obs t c = [(''timestamp'', SNum (Fin (of_int t))), (''close'', SStr c)]"

definition demo_source :: "string \<Rightarrow> string option \<Rightarrow> int option \<Rightarrow> exn + payload" where
  "demo_source s interval outputsize =
     (if s = ''AAA'' then
        Inr \<lparr>status = Some (SStr ''ok''), pvalues = [obs 2 ''5'', obs 1 ''0''], symbol = Some (SStr s)\<rparr>
      else if s = ''BBB'' then
        Inr \<lparr>status = Some (SStr ''ok''), pvalues = [obs 3 ''4'', obs 2 ''2'', obs 1 ''1''],
             symbol = Some (SStr s)\<rparr>
      else if s = ''CCC'' then
        Inr \<lparr>status = Some (SStr ''ok''), pvalues = [obs 3 ''3'', obs 2 ''3'', obs 1 ''1''],
             symbol = Some (SStr s)\<rparr>
      else if s = ''ERR'' then
        Inr \<lparr>status = Some (SStr ''error''), pvalues = [], symbol = None\<rparr>
      else Inr \<lparr>status = Some (SStr ''ok''), pvalues = [], symbol = Some (SStr s)\<rparr>)"

definition demo_to_datetime :: "scalar option list \<Rightarrow> exn + stamp list" where
  "demo_to_datetime cells =
     (if list_ex (\<lambda>c. case c of Some (SStr _) \<Rightarrow> True | _ \<Rightarrow> False) cells
      then Inl (ValueError ''Unknown datetime string format'')
      else Inr (map (\<lambda>c. case c of Some (SNum (Fin x)) \<Rightarrow> At \<lfloor>x\<rfloor> | _ \<Rightarrow> NaT) cells))"

definition digit_value :: "char \<Rightarrow> nat option" where
  "digit_value c =
     (let n = (of_char c :: nat) in if 48 \<le> n \<and> n \<le> 57 then Some (n - 48) else None)"

definition demo_parse_nat :: "string \<Rightarrow> nat option" where
  "demo_parse_nat s =
     (if s = [] \<or> list_ex (\<lambda>c. digit_value c = None) s then None
      else Some (fold (\<lambda>c n. 10 * n + the (digit_value c)) s 0))"

definition demo_dumps :: "json \<Rightarrow> string" where
  "demo_dumps j =
     (case j of
        JObj [(k, JStr v)] \<Rightarrow> ''{'' @ [CHR 0x22] @ k @ [CHR 0x22] @ '': '' @ [CHR 0x22] @ v @ [CHR 0x22] @ ''}''
      | _ \<Rightarrow> ''{...}'')"

definition demo_env :: env where
  "demo_env =
     \<lparr>get_historical = demo_source,
      to_datetime = demo_to_datetime,
      parse_float = (\<lambda>s. map_option (\<lambda>n. Fin (real n)) (demo_parse_nat s)),
      pad_returns = False,
      hrp_optimize = (\<lambda>f. Inl (LibraryError ''optimizer unavailable'')),
      str_payload = (\<lambda>ts. ''{status: error}''),
      json_dumps = demo_dumps,
      int_of_str = (\<lambda>s. map_option int (demo_parse_nat s))\<rparr>"

text \<open>A tool call that asks for BBB, ERR and AAA, in lower case and with blanks.\<close>

definition demo_args :: arguments where
  "demo_args =
     \<lparr>arg_symbols = Some [''bbb'', '' err '', ''AAA''], arg_interval = None,
      arg_outputsize = Some (AStr ''30'')\<rparr>"

section \<open>The dispatcher on an unknown tool name\<close>

text \<open>
  Claim C10. For a tool name that is none of \<open>compare_stocks\<close>,
  \<open>hierarchical_risk_parity_portfolio\<close> and \<open>health_check\<close>, the dispatcher
  raises nothing: it returns one text item, the JSON rendering of the object
  \<open>{"error": "Unknown tool: <name>"}\<close>, whatever the arguments are.
\<close>

theorem unknown_tool_reply:
  assumes "name \<noteq> ''compare_stocks''" "name \<noteq> ''hierarchical_risk_parity_portfolio''"
    "name \<noteq> ''health_check''"
  shows "handle_call_tool e name args =
           [\<lparr>tc_type = ''text'',
             tc_text = json_dumps e (JObj [(''error'', JStr (''Unknown tool: '' @ name))])\<rparr>]"
  using assms by (simp add: handle_call_tool_def error_reply_def reply_def)

theorem unknown_tool_reply_witness:
  "handle_call_tool demo_env ''nope'' \<lparr>arg_symbols = None, arg_interval = None, arg_outputsize = None\<rparr> =
     [\<lparr>tc_type = ''text'', tc_text = ''{'' @ [CHR 0x22] @ ''error'' @ [CHR 0x22] @ '': '' @ [CHR 0x22] @ ''Unknown tool: nope'' @ [CHR 0x22] @ ''}''\<rparr>]"
  using unknown_tool_reply [of "''nope''" demo_env "\<lparr>arg_symbols = None, arg_interval = None, arg_outputsize = None\<rparr>"]
  by (simp add: demo_env_def demo_dumps_def)

section \<open>The equal-weight fallback of the allocator\<close>

lemma update_keys_set: "fst ` set (AList.update k v al) = insert k (fst ` set al)"
  by (induction al) auto

lemma equal_weights_keys_aux:
  "fst ` set (fold (\<lambda>symb d. AList.update symb v d) symbols acc) = set symbols \<union> fst ` set acc"
  by (induction symbols arbitrary: acc) (auto simp: update_keys_set)

lemma equal_weights_lookup_aux:
  "map_of (fold (\<lambda>symb d. AList.update symb v d) symbols acc) s =
     (if s \<in> set symbols then Some v else map_of acc s)"
  by (induction symbols arbitrary: acc) (auto simp: update_conv')

lemma equal_weights_distinct_aux:
  "distinct (map fst acc) \<Longrightarrow> distinct (map fst (fold (\<lambda>symb d. AList.update symb v d) symbols acc))"
  by (induction symbols arbitrary: acc) (auto simp: distinct_update)

lemma fetch_series_keys:
  "fetch_series e i z syms acc = Inr sm \<Longrightarrow>
     fst ` set sm = upper ` set syms \<union> fst ` set acc"
proof (induction syms arbitrary: acc)
  case Nil
  then show ?case by simp
next
  case (Cons a syms)
  from Cons.prems obtain ts s where
    "fetch_series e i z syms (AList.update (upper a) s acc) = Inr sm"
    by (auto split: sum.splits if_splits)
  from Cons.IH [OF this] show ?case
    by (auto simp: update_keys_set)
qed

lemma fetch_series_distinct:
  "fetch_series e i z syms acc = Inr sm \<Longrightarrow> distinct (map fst acc) \<Longrightarrow> distinct (map fst sm)"
proof (induction syms arbitrary: acc)
  case Nil
  then show ?case by simp
next
  case (Cons a syms)
  from Cons.prems obtain ts s where
    "fetch_series e i z syms (AList.update (upper a) s acc) = Inr sm"
    by (auto split: sum.splits if_splits)
  from Cons.IH [OF this] Cons.prems(2) show ?case
    by (simp add: distinct_update)
qed

lemma fetch_series_single:
  "fetch_series e i z [s] [] = Inr sm \<Longrightarrow> \<exists>x. sm = [(upper s, x)]"
  by (auto split: sum.splits if_splits)

lemma build_panels_columns:
  "build_panels e sm = Inr (prices, returns) \<Longrightarrow>
     columns prices = map upper (map fst sm) \<and> columns returns = map upper (map fst sm)"
  by (auto simp: build_panels_def concat_axis1_def dropna_all_def pct_change_def Let_def split: sum.splits)

text \<open>
  Claim C2. When the fetches succeed and the returns panel is empty or has fewer than two
  columns, \<open>hierarchical_risk_parity_portfolio\<close> returns the equal-weight fallback
  over the symbols as requested: the keys are the requested symbols and each is mapped to
  1/N, N the length of the request list with its repeats. A request of one symbol always
  takes this path and returns that symbol with weight 1.
\<close>

theorem hrp_fallback_equal_weights:
  assumes "fetch_series e interval outputsize symbols [] = Inr sm"
    and "build_panels e sm = Inr (prices, returns)"
  shows "(frame_empty returns \<or> length (columns returns) < 2 \<longrightarrow>
           (\<exists>w. hierarchical_risk_parity_portfolio e symbols interval outputsize = Inr w
              \<and> fst ` set w = set symbols \<and> distinct (map fst w)
              \<and> (\<forall>s \<in> set symbols. map_of w s = Some (Fin (1 / real (length symbols))))))
       \<and> (\<forall>s. symbols = [s] \<longrightarrow>
           hierarchical_risk_parity_portfolio e symbols interval outputsize = Inr [(s, Fin 1)])"
proof (intro conjI)
  have ne: "\<And>s. s \<in> set symbols \<Longrightarrow> real (length symbols) \<noteq> 0"
    by (cases symbols) auto
  show "frame_empty returns \<or> length (columns returns) < 2 \<longrightarrow>
           (\<exists>w. hierarchical_risk_parity_portfolio e symbols interval outputsize = Inr w
              \<and> fst ` set w = set symbols \<and> distinct (map fst w)
              \<and> (\<forall>s \<in> set symbols. map_of w s = Some (Fin (1 / real (length symbols)))))"
  proof (cases "sm = []")
    case True
    then have "symbols = []" using fetch_series_keys [OF assms(1)]
      by simp
    then show ?thesis using assms True
      by (simp add: hierarchical_risk_parity_portfolio_def)
  next
    case False
    show ?thesis
    proof
      assume fb: "frame_empty returns \<or> length (columns returns) < 2"
      have "hierarchical_risk_parity_portfolio e symbols interval outputsize = Inr (equal_weights symbols)"
        using assms False fb by (simp add: hierarchical_risk_parity_portfolio_def)
      moreover have "fst ` set (equal_weights symbols) = set symbols"
        by (simp add: equal_weights_def equal_weights_keys_aux)
      moreover have "distinct (map fst (equal_weights symbols))"
        by (simp add: equal_weights_def equal_weights_distinct_aux)
      moreover have "\<forall>s \<in> set symbols. map_of (equal_weights symbols) s = Some (Fin (1 / real (length symbols)))"
        using ne by (auto simp: equal_weights_def equal_weights_lookup_aux)
      ultimately show "\<exists>w. hierarchical_risk_parity_portfolio e symbols interval outputsize = Inr w
              \<and> fst ` set w = set symbols \<and> distinct (map fst w)
              \<and> (\<forall>s \<in> set symbols. map_of w s = Some (Fin (1 / real (length symbols))))"
        by blast
    qed
  qed
  show "\<forall>s. symbols = [s] \<longrightarrow>
           hierarchical_risk_parity_portfolio e symbols interval outputsize = Inr [(s, Fin 1)]"
  proof (intro allI impI)
    fix s assume s: "symbols = [s]"
    obtain x where sm: "sm = [(upper s, x)]"
      using fetch_series_single assms(1) s by blast
    have "length (columns returns) < 2"
      using build_panels_columns [OF assms(2)] sm by simp
    then show "hierarchical_risk_parity_portfolio e symbols interval outputsize = Inr [(s, Fin 1)]"
      using assms sm s by (simp add: hierarchical_risk_parity_portfolio_def equal_weights_def)
  qed
qed

lemma demo_fetch_empty:
  "fetch_series demo_env None None [''ZZZ''] [] = Inr [(''ZZZ'', [])]"
  by (simp add: demo_env_def demo_source_def ts_to_series_def upper_def upper_char_def)

lemma demo_panels_empty:
  "build_panels demo_env [(''ZZZ'', [])] = Inr (\<lparr>columns = [''ZZZ''], rows = []\<rparr>, \<lparr>columns = [''ZZZ''], rows = []\<rparr>)"
  by (simp add: build_panels_def concat_axis1_def union_index_def reindex_def dropna_all_def pct_change_def demo_env_def upper_def upper_char_def Let_def)

theorem hrp_fallback_equal_weights_witness:
  "hierarchical_risk_parity_portfolio demo_env [''ZZZ''] None None = Inr [(''ZZZ'', Fin 1)]
   \<and> (\<exists>w. hierarchical_risk_parity_portfolio demo_env [''ZZZ''] None None = Inr w
              \<and> fst ` set w = set [''ZZZ''] \<and> distinct (map fst w)
              \<and> map_of w ''ZZZ'' = Some (Fin (1 / real (length [''ZZZ'']))))"
  using hrp_fallback_equal_weights [OF demo_fetch_empty demo_panels_empty]
  by (simp add: frame_empty_def)

text \<open>
  Claim C1, at a request that repeats a symbol. The request AAA, AAA builds a panel of one
  column, so the fallback runs: it divides by the length of the request, 2, and the dict it
  builds has the one key AAA. The weights returned sum to 1/2, not to 1.
\<close>

theorem hrp_duplicate_symbols:
  "hierarchical_risk_parity_portfolio demo_env [''AAA'', ''AAA''] None None = Inr [(''AAA'', Fin (1 / 2))]
   \<and> fsum (map snd [(''AAA'', Fin (1 / 2))]) = Fin (1 / 2)"
  by (simp add: hierarchical_risk_parity_portfolio_def demo_env_def demo_source_def ts_to_series_def obs_def
      series_index_def has_column_def df_column_def demo_to_datetime_def demo_parse_nat_def digit_value_def
      upper_def upper_char_def build_panels_def concat_axis1_def union_index_def union2_def reindex_def dropna_all_def
      pct_change_def is_nan_def frame_empty_def equal_weights_def fsub_def fsum_def)

section \<open>The normalizer\<close>

lemma series_index_length:
  "series_index e vals = Inr idx \<Longrightarrow> length idx = length vals"
  by (auto simp: series_index_def split: sum.splits if_splits)

lemma ts_to_series_Inr:
  assumes "ts_to_series e ts = Inr s" "pvalues ts \<noteq> []"
  shows "\<exists>idx. series_index e (pvalues ts) = Inr idx \<and> has_column ''close'' (pvalues ts)
           \<and> s = sort_key (\<lambda>p. stamp_key (fst p))
                   (zip idx (map (to_numeric e) (df_column ''close'' (pvalues ts))))"
  using assms by (auto simp: ts_to_series_def Let_def split: sum.splits if_splits)

text \<open>
  Claim C8, as the code has it. The series \<open>_ts_to_series\<close> returns is sorted
  ascending by timestamp and holds one entry per observation of the payload: the closes as
  \<open>to_numeric\<close> reads them, observations that share a timestamp all kept. A payload
  with no observations gives the empty series; when the index is built and a close column
  exists the series is returned, and a close that does not parse is NaN in it.
\<close>

theorem normalizer_sorted_keeps_duplicates:
  "(pvalues ts = [] \<longrightarrow> ts_to_series e ts = Inr [])
   \<and> (\<forall>s. ts_to_series e ts = Inr s \<longrightarrow>
          sorted (map (\<lambda>p. stamp_key (fst p)) s)
          \<and> length s = length (pvalues ts)
          \<and> mset (map snd s) = mset (map (to_numeric e) (df_column ''close'' (pvalues ts))))
   \<and> (\<forall>idx. series_index e (pvalues ts) = Inr idx \<and> has_column ''close'' (pvalues ts) \<longrightarrow>
          (\<exists>s. ts_to_series e ts = Inr s
             \<and> mset s = mset (zip idx (map (to_numeric e) (df_column ''close'' (pvalues ts))))))
   \<and> (\<forall>c. parse_float e c = None \<longrightarrow> to_numeric e (Some (SStr c)) = NaN)"
proof (intro conjI allI impI)
  show "pvalues ts = [] \<Longrightarrow> ts_to_series e ts = Inr []"
    by (simp add: ts_to_series_def)
next
  fix s assume s: "ts_to_series e ts = Inr s"
  show "sorted (map (\<lambda>p. stamp_key (fst p)) s)"
  proof (cases "pvalues ts = []")
    case True
    with s show ?thesis by (simp add: ts_to_series_def)
  next
    case False
    from ts_to_series_Inr [OF s False] show ?thesis by auto
  qed
  show "length s = length (pvalues ts)"
  proof (cases "pvalues ts = []")
    case True
    with s show ?thesis by (simp add: ts_to_series_def)
  next
    case False
    from ts_to_series_Inr [OF s False] series_index_length show ?thesis
      by (auto simp: df_column_def)
  qed
  show "mset (map snd s) = mset (map (to_numeric e) (df_column ''close'' (pvalues ts)))"
  proof (cases "pvalues ts = []")
    case True
    with s show ?thesis by (simp add: ts_to_series_def df_column_def)
  next
    case False
    from ts_to_series_Inr [OF s False] obtain idx where
      idx: "series_index e (pvalues ts) = Inr idx"
      and srt: "s = sort_key (\<lambda>p. stamp_key (fst p))
                   (zip idx (map (to_numeric e) (df_column ''close'' (pvalues ts))))"
      by blast
    have len: "length idx = length (map (to_numeric e) (df_column ''close'' (pvalues ts)))"
      using series_index_length [OF idx] by (simp add: df_column_def)
    have "mset (map snd s) = image_mset snd (mset s)" by simp
    also have "\<dots> = image_mset snd (mset (zip idx (map (to_numeric e) (df_column ''close'' (pvalues ts)))))"
      by (simp add: srt)
    also have "\<dots> = mset (map snd (zip idx (map (to_numeric e) (df_column ''close'' (pvalues ts)))))"
      by simp
    also have "\<dots> = mset (map (to_numeric e) (df_column ''close'' (pvalues ts)))"
      using len by (simp only: map_snd_zip)
    finally show ?thesis .
  qed
next
  fix idx
  assume a: "series_index e (pvalues ts) = Inr idx \<and> has_column ''close'' (pvalues ts)"
  then have ne: "pvalues ts \<noteq> []" by (auto simp: has_column_def)
  with a show "\<exists>s. ts_to_series e ts = Inr s
             \<and> mset s = mset (zip idx (map (to_numeric e) (df_column ''close'' (pvalues ts))))"
    by (simp add: ts_to_series_def)
next
  fix c assume "parse_float e c = None"
  then show "to_numeric e (Some (SStr c)) = NaN" by simp
qed

text \<open>
  Claim C8 as stated fails: two observations with the same timestamp are both in the
  series, so its timestamps are not unique.
\<close>

theorem normalizer_duplicate_timestamps:
  "ts_to_series demo_env \<lparr>status = Some (SStr ''ok''), pvalues = [obs 1 ''5'', obs 1 ''7''], symbol = None\<rparr>
     = Inr [(At 1, Fin 5), (At 1, Fin 7)]
   \<and> \<not> distinct (map fst [(At 1, Fin 5), (At 1, Fin (7::real))])"
  by (simp add: demo_env_def ts_to_series_def obs_def
      series_index_def has_column_def df_column_def demo_to_datetime_def demo_parse_nat_def digit_value_def)

theorem normalizer_sorted_keeps_duplicates_witness:
  "ts_to_series demo_env \<lparr>status = None, pvalues = [obs 2 ''x'', obs 1 ''7''], symbol = None\<rparr>
     = Inr [(At 1, Fin 7), (At 2, NaN)]
   \<and> sorted (map (\<lambda>p. stamp_key (fst p)) [(At 1, Fin 7), (At 2, NaN)])
   \<and> to_numeric demo_env (Some (SStr ''x'')) = NaN"
  using normalizer_sorted_keeps_duplicates [of "\<lparr>status = None, pvalues = [obs 2 ''x'', obs 1 ''7''], symbol = None\<rparr>" demo_env]
  by (simp add: demo_env_def ts_to_series_def obs_def
      series_index_def has_column_def df_column_def demo_to_datetime_def demo_parse_nat_def digit_value_def)

section \<open>Fetch errors\<close>

lemma fetch_series_error_status:
  assumes "bad \<in> set syms" "get_historical e bad i z = Inr ts" "status ts = Some (SStr ''error'')"
  shows "\<exists>err. fetch_series e i z syms acc = Inl err"
  using assms(1)
proof (induction syms arbitrary: acc)
  case Nil
  then show ?case by simp
next
  case (Cons a syms)
  show ?case
  proof (cases "a = bad")
    case True
    then show ?thesis using assms(2,3) by simp
  next
    case False
    with Cons.prems have "bad \<in> set syms" by simp
    from Cons.IH [OF this] show ?thesis
      by (auto split: sum.splits)
  qed
qed

lemma fetch_series_first_error:
  assumes "fetches_clean e i z pre" "get_historical e bad i z = Inr ts"
    "status ts = Some (SStr ''error'')"
  shows "fetch_series e i z (pre @ bad # post) acc =
           Inl (RuntimeError (''Error fetching '' @ bad @ '': '' @ str_payload e ts))"
  using assms(1)
proof (induction pre arbitrary: acc)
  case Nil
  then show ?case using assms(2,3) by simp
next
  case (Cons a pre)
  from Cons.prems have "fetches_clean e i z pre"
    by (simp add: fetches_clean_def)
  from Cons.IH [OF this] Cons.prems show ?case
    by (auto simp: fetches_clean_def split: sum.splits)
qed

lemma analytic_tool_failure:
  assumes "arg_symbols args = Some raw"
    and "syms = map (\<lambda>s. upper (strip s)) (filter (\<lambda>s. strip s \<noteq> []) raw)"
    and "syms \<noteq> []"
    and "outputsize_of e args = Inr outputsize"
    and "analyse syms (arg_interval args) outputsize = Inl err"
  shows "analytic_tool e name args analyse = error_reply e (''Analysis failed: '' @ str_exn err)"
proof -
  have "raw \<noteq> []" using assms(2,3) by auto
  then show ?thesis using assms
    by (simp add: analytic_tool_def Let_def)
qed

text \<open>
  Claim C6. A request to either analytic tool whose validated symbol list holds a symbol
  the data source answers with an error status is aborted as a whole: both
  \<open>compare_symbols\<close> and \<open>hierarchical_risk_parity_portfolio\<close> raise, no
  result for the other symbols is returned, and the dispatcher answers with the single
  payload \<open>{"error": "Analysis failed: ..."}\<close>. When the symbols before the failing
  one fetch and normalize, the message is
  \<open>Analysis failed: Error fetching <symbol>: <payload>\<close>.
\<close>

theorem fetch_error_aborts_request:
  assumes "name = ''compare_stocks'' \<or> name = ''hierarchical_risk_parity_portfolio''"
    and "arg_symbols args = Some raw"
    and "syms = map (\<lambda>s. upper (strip s)) (filter (\<lambda>s. strip s \<noteq> []) raw)"
    and "outputsize_of e args = Inr outputsize"
    and "bad \<in> set syms"
    and "get_historical e bad (arg_interval args) outputsize = Inr ts"
    and "status ts = Some (SStr ''error'')"
  shows "(\<exists>err. compare_symbols e syms (arg_interval args) outputsize = Inl err
            \<and> hierarchical_risk_parity_portfolio e syms (arg_interval args) outputsize = Inl err
            \<and> handle_call_tool e name args =
                [\<lparr>tc_type = ''text'',
                  tc_text = json_dumps e (JObj [(''error'', JStr (''Analysis failed: '' @ str_exn err))])\<rparr>])
       \<and> (\<forall>pre post. syms = pre @ bad # post \<and> fetches_clean e (arg_interval args) outputsize pre \<longrightarrow>
            compare_symbols e syms (arg_interval args) outputsize =
              Inl (RuntimeError (''Error fetching '' @ bad @ '': '' @ str_payload e ts))
            \<and> hierarchical_risk_parity_portfolio e syms (arg_interval args) outputsize =
              Inl (RuntimeError (''Error fetching '' @ bad @ '': '' @ str_payload e ts))
            \<and> handle_call_tool e name args =
                [\<lparr>tc_type = ''text'',
                  tc_text = json_dumps e (JObj [(''error'',
                    JStr (''Analysis failed: Error fetching '' @ bad @ '': '' @ str_payload e ts))])\<rparr>])"
proof -
  have ne: "syms \<noteq> []" using assms(5) by auto
  have tool: "handle_call_tool e name args =
                [\<lparr>tc_type = ''text'',
                  tc_text = json_dumps e (JObj [(''error'', JStr (''Analysis failed: '' @ str_exn err))])\<rparr>]"
    if "fetch_series e (arg_interval args) outputsize syms [] = Inl err" for err
  proof -
    from assms(1) show ?thesis
    proof
      assume n: "name = ''compare_stocks''"
      have "analytic_tool e name args
              (\<lambda>syms interval outputsize.
                 case compare_symbols e syms interval outputsize of
                   Inl exc \<Rightarrow> Inl exc | Inr r \<Rightarrow> Inr (comparison_json r))
            = error_reply e (''Analysis failed: '' @ str_exn err)"
        by (rule analytic_tool_failure [OF assms(2) assms(3) ne assms(4)])
           (simp add: compare_symbols_def that)
      then show ?thesis using n
        by (simp add: handle_call_tool_def error_reply_def reply_def)
    next
      assume n: "name = ''hierarchical_risk_parity_portfolio''"
      have "analytic_tool e name args
              (\<lambda>syms interval outputsize.
                 case hierarchical_risk_parity_portfolio e syms interval outputsize of
                   Inl exc \<Rightarrow> Inl exc | Inr w \<Rightarrow> Inr (weights_json w))
            = error_reply e (''Analysis failed: '' @ str_exn err)"
        by (rule analytic_tool_failure [OF assms(2) assms(3) ne assms(4)])
           (simp add: hierarchical_risk_parity_portfolio_def that)
      then show ?thesis using n
        by (simp add: handle_call_tool_def error_reply_def reply_def)
    qed
  qed
  have both: "compare_symbols e syms (arg_interval args) outputsize = Inl err
        \<and> hierarchical_risk_parity_portfolio e syms (arg_interval args) outputsize = Inl err"
    if "fetch_series e (arg_interval args) outputsize syms [] = Inl err" for err
    using that by (simp add: compare_symbols_def hierarchical_risk_parity_portfolio_def)
  show ?thesis
  proof (intro conjI allI impI)
    from fetch_series_error_status [OF assms(5) assms(6) assms(7)]
    obtain err where "fetch_series e (arg_interval args) outputsize syms [] = Inl err"
      by blast
    with tool both
    show "\<exists>err. compare_symbols e syms (arg_interval args) outputsize = Inl err
            \<and> hierarchical_risk_parity_portfolio e syms (arg_interval args) outputsize = Inl err
            \<and> handle_call_tool e name args =
                [\<lparr>tc_type = ''text'',
                  tc_text = json_dumps e (JObj [(''error'', JStr (''Analysis failed: '' @ str_exn err))])\<rparr>]"
      by blast
  next
    fix pre post
    assume a: "syms = pre @ bad # post \<and> fetches_clean e (arg_interval args) outputsize pre"
    then have f: "fetch_series e (arg_interval args) outputsize syms [] =
        Inl (RuntimeError (''Error fetching '' @ bad @ '': '' @ str_payload e ts))"
      using fetch_series_first_error [OF _ assms(6) assms(7)] by simp
    from both [OF f]
    show "compare_symbols e syms (arg_interval args) outputsize =
              Inl (RuntimeError (''Error fetching '' @ bad @ '': '' @ str_payload e ts))"
      and "hierarchical_risk_parity_portfolio e syms (arg_interval args) outputsize =
              Inl (RuntimeError (''Error fetching '' @ bad @ '': '' @ str_payload e ts))"
      by simp_all
    from tool [OF f]
    show "handle_call_tool e name args =
                [\<lparr>tc_type = ''text'',
                  tc_text = json_dumps e (JObj [(''error'',
                    JStr (''Analysis failed: Error fetching '' @ bad @ '': '' @ str_payload e ts))])\<rparr>]"
      by simp
  qed
qed

lemma demo_syms:
  "map (\<lambda>s. upper (strip s)) (filter (\<lambda>s. strip s \<noteq> []) [''bbb'', '' err '', ''AAA'']) = [''BBB'', ''ERR'', ''AAA'']"
  by code_simp

lemma demo_outputsize: "outputsize_of demo_env demo_args = Inr (Some 30)"
  by (simp add: outputsize_of_def demo_args_def demo_env_def demo_parse_nat_def digit_value_def)

lemma demo_clean: "fetches_clean demo_env None (Some 30) [''BBB'']"
  by (simp add: fetches_clean_def demo_env_def demo_source_def ts_to_series_def obs_def
      series_index_def has_column_def df_column_def demo_to_datetime_def)

theorem fetch_error_aborts_request_witness:
  "handle_call_tool demo_env ''compare_stocks'' demo_args =
     [\<lparr>tc_type = ''text'',
       tc_text = json_dumps demo_env (JObj [(''error'',
                    JStr (''Analysis failed: Error fetching ERR: {status: error}''))])\<rparr>]
   \<and> compare_symbols demo_env [''BBB'', ''ERR'', ''AAA''] None (Some 30) =
       Inl (RuntimeError ''Error fetching ERR: {status: error}'')
   \<and> hierarchical_risk_parity_portfolio demo_env [''BBB'', ''ERR'', ''AAA''] None (Some 30) =
       Inl (RuntimeError ''Error fetching ERR: {status: error}'')"
proof -
  have n: "''compare_stocks'' = ''compare_stocks'' \<or> ''compare_stocks'' = ''hierarchical_risk_parity_portfolio''"
    by simp
  have a: "arg_symbols demo_args = Some [''bbb'', '' err '', ''AAA'']"
    and i: "arg_interval demo_args = None"
    by (simp_all add: demo_args_def)
  have g: "get_historical demo_env ''ERR'' (arg_interval demo_args) (Some 30) =
             Inr \<lparr>status = Some (SStr ''error''), pvalues = [], symbol = None\<rparr>"
    by (simp add: demo_env_def demo_source_def)
  have m: "''ERR'' \<in> set [''BBB'', ''ERR'', ''AAA'']" by simp
  have st: "status \<lparr>status = Some (SStr ''error''), pvalues = [], symbol = None\<rparr> = Some (SStr ''error'')"
    by simp
  from fetch_error_aborts_request [OF n a demo_syms [symmetric] demo_outputsize m g st]
  have "\<forall>pre post. [''BBB'', ''ERR'', ''AAA''] = pre @ ''ERR'' # post \<and> fetches_clean demo_env None (Some 30) pre \<longrightarrow>
            compare_symbols demo_env [''BBB'', ''ERR'', ''AAA''] None (Some 30) =
              Inl (RuntimeError (''Error fetching '' @ ''ERR'' @ '': '' @ str_payload demo_env \<lparr>status = Some (SStr ''error''), pvalues = [], symbol = None\<rparr>))
            \<and> hierarchical_risk_parity_portfolio demo_env [''BBB'', ''ERR'', ''AAA''] None (Some 30) =
              Inl (RuntimeError (''Error fetching '' @ ''ERR'' @ '': '' @ str_payload demo_env \<lparr>status = Some (SStr ''error''), pvalues = [], symbol = None\<rparr>))
            \<and> handle_call_tool demo_env ''compare_stocks'' demo_args =
                [\<lparr>tc_type = ''text'',
                  tc_text = json_dumps demo_env (JObj [(''error'',
                    JStr (''Analysis failed: Error fetching '' @ ''ERR'' @ '': '' @ str_payload demo_env \<lparr>status = Some (SStr ''error''), pvalues = [], symbol = None\<rparr>))])\<rparr>]"
    unfolding i by blast
  from this [rule_format, of "[''BBB'']" "[''AAA'']"] demo_clean
  show ?thesis by (simp add: demo_env_def)
qed

section \<open>Panel columns and metric keys\<close>

lemma upper_char_idem: "upper_char (upper_char c) = upper_char c"
  by (auto simp: upper_char_def Let_def)

lemma upper_idem: "upper (upper s) = upper s"
  by (simp add: upper_def upper_char_idem)

lemma fetch_series_keys_upper:
  assumes "fetch_series e i z syms [] = Inr sm"
  shows "map upper (map fst sm) = map fst sm"
proof -
  have "\<forall>k \<in> set (map fst sm). upper k = k"
    using fetch_series_keys [OF assms] by (auto simp: upper_idem)
  then show ?thesis by (simp add: map_idI)
qed

lemma update_new_key: "k \<notin> fst ` set al \<Longrightarrow> AList.update k v al = al @ [(k, v)]"
  by (induction al) auto

lemma fold_update_fresh:
  "distinct (map snd qs) \<Longrightarrow> snd ` set qs \<inter> fst ` set acc = {} \<Longrightarrow>
     fold (\<lambda>(j, c) m. AList.update c (g j) m) qs acc = acc @ map (\<lambda>(j, c). (c, g j)) qs"
proof (induction qs arbitrary: acc)
  case Nil
  then show ?case by simp
next
  case (Cons q qs)
  obtain j c where q: "q = (j, c)" by (cases q)
  have fresh: "c \<notin> fst ` set acc" using Cons.prems(2) q by auto
  have "snd ` set qs \<inter> fst ` set (acc @ [(c, g j)]) = {}"
    using Cons.prems q by (auto simp: image_iff)
  with Cons.IH [of "acc @ [(c, g j)]"] Cons.prems(1) show ?case
    by (simp add: q update_new_key [OF fresh])
qed

lemma all_metrics_distinct:
  assumes "distinct (columns prices)"
  shows "all_metrics interval prices returns =
           map (\<lambda>(j, c). (c, symbol_metrics interval (column j prices) (column j returns)))
             (zip [0..<length (columns prices)] (columns prices))"
  unfolding all_metrics_def
  using fold_update_fresh [of "zip [0..<length (columns prices)] (columns prices)" "[]"
      "\<lambda>j. symbol_metrics interval (column j prices) (column j returns)"] assms
  by simp

lemma map_fst_paired:
  "length js = length xs \<Longrightarrow> map fst (map (\<lambda>(j, c). (c, f j)) (zip js xs)) = xs"
  by (induction js xs rule: list_induct2) auto

lemma map_fst_indexed:
  "map fst (map (\<lambda>(j, c). (c, f j)) (zip [0..<length xs] xs)) = xs"
  by (rule map_fst_paired) simp

lemma all_metrics_keys:
  assumes "distinct (columns prices)"
  shows "map fst (all_metrics interval prices returns) = columns prices"
  by (simp only: all_metrics_distinct [OF assms] map_fst_indexed)

text \<open>
  Claim C7. When \<open>compare_symbols\<close> returns for a non-empty symbol list, the keys
  of its metrics mapping are the upper-cased input symbols, each once, and they are the
  columns of the price panel and of the returns panel it built, in the same order.
\<close>

theorem compare_symbols_keys:
  assumes "compare_symbols e symbols interval outputsize = Inr r" and "symbols \<noteq> []"
  shows "\<exists>sm prices returns res.
           r = Some res
           \<and> fetch_series e interval outputsize symbols [] = Inr sm
           \<and> build_panels e sm = Inr (prices, returns)
           \<and> fst ` set (cmp_metrics res) = upper ` set symbols
           \<and> map fst (cmp_metrics res) = columns prices
           \<and> set (columns prices) = upper ` set symbols
           \<and> distinct (columns prices)
           \<and> columns returns = columns prices"
proof -
  from assms(1) obtain sm where sm: "fetch_series e interval outputsize symbols [] = Inr sm"
    by (auto simp: compare_symbols_def split: sum.splits)
  have keys: "fst ` set sm = upper ` set symbols"
    using fetch_series_keys [OF sm] by simp
  then have ne: "sm \<noteq> []" using assms(2) by auto
  from assms(1) sm ne obtain prices returns where
    bp: "build_panels e sm = Inr (prices, returns)"
    and r: "r = Some \<lparr>cmp_metrics = all_metrics interval prices returns,
                      cmp_correlation = correlation returns\<rparr>"
    by (auto simp: compare_symbols_def split: sum.splits)
  have cols: "columns prices = map fst sm" "columns returns = map fst sm"
    using build_panels_columns [OF bp] fetch_series_keys_upper [OF sm] by simp_all
  have dist: "distinct (columns prices)"
    using fetch_series_distinct [OF sm] cols by simp
  have "map fst (all_metrics interval prices returns) = columns prices"
    by (rule all_metrics_keys [OF dist])
  moreover have "set (columns prices) = upper ` set symbols"
    using cols keys by simp
  ultimately have keys': "fst ` set (all_metrics interval prices returns) = upper ` set symbols"
    and mk: "map fst (all_metrics interval prices returns) = columns prices"
    and ck: "set (columns prices) = upper ` set symbols"
    by (simp_all flip: set_map)
  show ?thesis
    apply (rule exI [of _ sm])
    apply (rule exI [of _ prices])
    apply (rule exI [of _ returns])
    apply (rule exI [of _ "\<lparr>cmp_metrics = all_metrics interval prices returns,
                      cmp_correlation = correlation returns\<rparr>"])
    using sm bp r cols dist keys' mk ck apply simp
    done
qed

lemma demo_upper_zzz: "upper ''zzz'' = ''ZZZ''" "upper ''ZZZ'' = ''ZZZ''"
  by code_simp+

lemma demo_compare_zzz:
  "compare_symbols demo_env [''zzz'', ''ZZZ''] None None =
     Inr (Some \<lparr>cmp_metrics = [(''ZZZ'', \<lparr>latest = None, cumulative_return = None, volatility = None,
                                          sharpe = None, var_95 = None\<rparr>)],
                cmp_correlation = [(''ZZZ'', [(''ZZZ'', Fin 0)])]\<rparr>)"
  by (simp add: compare_symbols_def demo_env_def demo_source_def ts_to_series_def demo_upper_zzz
      build_panels_def concat_axis1_def union_index_def union2_def reindex_def dropna_all_def
      pct_change_def all_metrics_def symbol_metrics_def column_def dropna_def correlation_def
      corr_entry_def finite_pairs_def pearson_def fillna0_def is_nan_def rint_def Let_def)

theorem compare_symbols_keys_witness:
  "\<exists>sm prices returns res.
      Some \<lparr>cmp_metrics = [(''ZZZ'', \<lparr>latest = None, cumulative_return = None, volatility = None,
                                     sharpe = None, var_95 = None\<rparr>)],
            cmp_correlation = [(''ZZZ'', [(''ZZZ'', Fin 0)])]\<rparr> = Some res
      \<and> fetch_series demo_env None None [''zzz'', ''ZZZ''] [] = Inr sm
      \<and> build_panels demo_env sm = Inr (prices, returns)
      \<and> fst ` set (cmp_metrics res) = upper ` set [''zzz'', ''ZZZ'']
      \<and> map fst (cmp_metrics res) = columns prices
      \<and> set (columns prices) = upper ` set [''zzz'', ''ZZZ'']
      \<and> distinct (columns prices)
      \<and> columns returns = columns prices"
proof -
  have ne: "[''zzz'', ''ZZZ''] \<noteq> []" by simp
  show ?thesis by (rule compare_symbols_keys [OF demo_compare_zzz ne])
qed

section \<open>Per-symbol metrics\<close>

lemma indexed_as_zip:
  "length js = length xs \<Longrightarrow> map (\<lambda>(j, c). (c, h j)) (zip js xs) = zip xs (map h js)"
  by (induction js xs rule: list_induct2) auto

lemma all_metrics_lookup:
  assumes "distinct (columns prices)" "j < length (columns prices)"
  shows "map_of (all_metrics interval prices returns) (columns prices ! j) =
           Some (symbol_metrics interval (column j prices) (column j returns))"
proof -
  let ?h = "\<lambda>j. symbol_metrics interval (column j prices) (column j returns)"
  have "all_metrics interval prices returns =
          zip (columns prices) (map ?h [0..<length (columns prices)])"
    by (simp add: all_metrics_distinct [OF assms(1)] indexed_as_zip)
  moreover have "map_of (zip (columns prices) (map ?h [0..<length (columns prices)])) (columns prices ! j)
      = Some (map ?h [0..<length (columns prices)] ! j)"
    by (rule map_of_zip_nth) (use assms in simp_all)
  ultimately show ?thesis using assms(2) by simp
qed

lemma compare_symbols_metric:
  assumes "fetch_series e interval outputsize symbols [] = Inr sm"
    and "build_panels e sm = Inr (prices, returns)"
    and "j < length (columns prices)"
  shows "compare_symbols e symbols interval outputsize =
           Inr (Some \<lparr>cmp_metrics = all_metrics interval prices returns,
                      cmp_correlation = correlation returns\<rparr>)
         \<and> map_of (all_metrics interval prices returns) (columns prices ! j) =
             Some (symbol_metrics interval (column j prices) (column j returns))"
proof -
  have cols: "columns prices = map fst sm"
    using build_panels_columns [OF assms(2)] fetch_series_keys_upper [OF assms(1)] by simp
  then have ne: "sm \<noteq> []" using assms(3) by auto
  have dist: "distinct (columns prices)"
    using fetch_series_distinct [OF assms(1)] cols by simp
  show ?thesis
    using assms(1,2) ne all_metrics_lookup [OF dist assms(3)]
    by (simp add: compare_symbols_def)
qed

text \<open>
  Claim C3. For a symbol with at least one non-missing price, with std the population
  standard deviation of its non-missing returns: the reported volatility is
  std * sqrt(252) when the interval is absent or one of the daily tokens
  \<open>1day\<close>, \<open>1D\<close>, \<open>1d\<close> and std is not zero, and std itself for any
  other interval or when std is zero (with no returns at all, std counts as 0).
\<close>

theorem volatility_annualized_daily:
  assumes "fetch_series e interval outputsize symbols [] = Inr sm"
    and "build_panels e sm = Inr (prices, returns)"
    and "j < length (columns prices)"
    and "dropna (column j prices) \<noteq> []"
  shows "\<exists>res m.
           compare_symbols e symbols interval outputsize = Inr (Some res)
           \<and> map_of (cmp_metrics res) (columns prices ! j) = Some m
           \<and> (dropna (column j returns) = [] \<longrightarrow> volatility m = Some (Fin 0))
           \<and> (dropna (column j returns) \<noteq> [] \<longrightarrow>
                volatility m =
                  Some (if (interval = None \<or> interval = Some ''1day'' \<or> interval = Some ''1D''
                            \<or> interval = Some ''1d'')
                           \<and> fstd0 (dropna (column j returns)) \<noteq> Fin 0
                        then fmul (fstd0 (dropna (column j returns))) (Fin (sqrt 252))
                        else fstd0 (dropna (column j returns))))"
proof -
  let ?m = "symbol_metrics interval (column j prices) (column j returns)"
  have v0: "dropna (column j returns) = [] \<longrightarrow> volatility ?m = Some (Fin 0)"
    using assms(4) by (simp add: symbol_metrics_def Let_def truthy_def)
  have v1: "dropna (column j returns) \<noteq> [] \<longrightarrow>
                volatility ?m =
                  Some (if (interval = None \<or> interval = Some ''1day'' \<or> interval = Some ''1D''
                            \<or> interval = Some ''1d'')
                           \<and> fstd0 (dropna (column j returns)) \<noteq> Fin 0
                        then fmul (fstd0 (dropna (column j returns))) (Fin (sqrt 252))
                        else fstd0 (dropna (column j returns)))"
    using assms(4) by (auto simp: symbol_metrics_def Let_def truthy_def daily_intervals_def)
  from compare_symbols_metric [OF assms(1,2,3)] v0 v1 show ?thesis
    by (intro exI [of _ "\<lparr>cmp_metrics = all_metrics interval prices returns,
                      cmp_correlation = correlation returns\<rparr>"] exI [of _ ?m]) simp
qed

text \<open>
  Claim C5. For a symbol with at least one non-missing price, \<open>compare_symbols\<close>
  returns (no error), and in its metrics: \<open>cumulative_return\<close> is null exactly when
  the first non-missing price is 0 and is latest/first - 1 otherwise; \<open>sharpe\<close> is
  null exactly when the population standard deviation of the non-missing returns is 0 (it
  counts as 0 when there are no returns) and is mean/std otherwise.
\<close>

theorem null_metrics_on_zero_denominator:
  assumes "fetch_series e interval outputsize symbols [] = Inr sm"
    and "build_panels e sm = Inr (prices, returns)"
    and "j < length (columns prices)"
    and "dropna (column j prices) \<noteq> []"
    and "r = dropna (column j returns)"
    and "mean = (if r = [] then Fin 0 else fmean r)"
    and "std = (if r = [] then Fin 0 else fstd0 r)"
  shows "\<exists>res m.
           compare_symbols e symbols interval outputsize = Inr (Some res)
           \<and> map_of (cmp_metrics res) (columns prices ! j) = Some m
           \<and> (cumulative_return m = None \<longleftrightarrow> hd (dropna (column j prices)) = Fin 0)
           \<and> (hd (dropna (column j prices)) \<noteq> Fin 0 \<longrightarrow>
                cumulative_return m =
                  Some (fsub (fdiv (last (dropna (column j prices))) (hd (dropna (column j prices))))
                          (Fin 1)))
           \<and> (sharpe m = None \<longleftrightarrow> std = Fin 0)
           \<and> (std \<noteq> Fin 0 \<longrightarrow> sharpe m = Some (fdiv mean std))"
proof -
  let ?m = "symbol_metrics interval (column j prices) (column j returns)"
  have c: "(cumulative_return ?m = None \<longleftrightarrow> hd (dropna (column j prices)) = Fin 0)"
    "hd (dropna (column j prices)) \<noteq> Fin 0 \<longrightarrow>
                cumulative_return ?m =
                  Some (fsub (fdiv (last (dropna (column j prices))) (hd (dropna (column j prices))))
                          (Fin 1))"
    using assms(4) by (simp_all add: symbol_metrics_def Let_def)
  have s: "(sharpe ?m = None \<longleftrightarrow> std = Fin 0)"
    "std \<noteq> Fin 0 \<longrightarrow> sharpe ?m = Some (fdiv mean std)"
    using assms(4,5,6,7) by (simp_all add: symbol_metrics_def Let_def truthy_def)
  from compare_symbols_metric [OF assms(1,2,3)] c s show ?thesis
    by (intro exI [of _ "\<lparr>cmp_metrics = all_metrics interval prices returns,
                      cmp_correlation = correlation returns\<rparr>"] exI [of _ ?m]) simp
qed

lemmas demo_eval =
  demo_env_def demo_source_def ts_to_series_def obs_def series_index_def has_column_def
  df_column_def demo_to_datetime_def demo_parse_nat_def digit_value_def upper_def upper_char_def

lemmas panel_eval =
  build_panels_def concat_axis1_def union_index_def union2_def reindex_def dropna_all_def
  pct_change_def is_nan_def fsub_def Let_def

lemma demo_fetch_ccc:
  "fetch_series demo_env None None [''CCC''] [] =
     Inr [(''CCC'', [(At 1, Fin 1), (At 2, Fin 3), (At 3, Fin 3)])]"
  by (simp add: demo_eval)

lemma demo_panels_ccc:
  "build_panels demo_env [(''CCC'', [(At 1, Fin 1), (At 2, Fin 3), (At 3, Fin 3)])] =
     Inr (\<lparr>columns = [''CCC''], rows = [(At 1, [Fin 1]), (At 2, [Fin 3]), (At 3, [Fin 3])]\<rparr>,
          \<lparr>columns = [''CCC''], rows = [(At 2, [Fin 2]), (At 3, [Fin 0])]\<rparr>)"
  by (simp add: panel_eval demo_env_def upper_def upper_char_def)

lemma demo_std_ccc: "fstd0 [Fin 2, Fin 0] = Fin 1"
  by (simp add: fstd0_def fmean_def fsum_def fsub_def)

theorem volatility_annualized_daily_witness:
  "\<exists>res m.
      compare_symbols demo_env [''CCC''] None None = Inr (Some res)
      \<and> map_of (cmp_metrics res) ''CCC'' = Some m
      \<and> volatility m = Some (Fin (sqrt 252))"
proof -
  have j: "0 < length (columns \<lparr>columns = [''CCC''], rows = [(At 1, [Fin 1]), (At 2, [Fin 3]), (At 3, [Fin 3])]\<rparr>)"
    by simp
  have ne: "dropna (column 0 \<lparr>columns = [''CCC''], rows = [(At 1, [Fin 1]), (At 2, [Fin 3]), (At 3, [Fin 3])]\<rparr>) \<noteq> []"
    by (simp add: dropna_def column_def is_nan_def)
  from volatility_annualized_daily [OF demo_fetch_ccc demo_panels_ccc j ne]
  show ?thesis
    by (simp add: dropna_def column_def is_nan_def demo_std_ccc)
qed

lemma demo_fetch_bbb:
  "fetch_series demo_env None None [''BBB''] [] =
     Inr [(''BBB'', [(At 1, Fin 1), (At 2, Fin 2), (At 3, Fin 4)])]"
  by (simp add: demo_eval)

lemma demo_panels_bbb:
  "build_panels demo_env [(''BBB'', [(At 1, Fin 1), (At 2, Fin 2), (At 3, Fin 4)])] =
     Inr (\<lparr>columns = [''BBB''], rows = [(At 1, [Fin 1]), (At 2, [Fin 2]), (At 3, [Fin 4])]\<rparr>,
          \<lparr>columns = [''BBB''], rows = [(At 2, [Fin 1]), (At 3, [Fin 1])]\<rparr>)"
  by (simp add: panel_eval demo_env_def upper_def upper_char_def)

lemma demo_std_bbb: "fstd0 [Fin 1, Fin 1] = Fin 0"
  by (simp add: fstd0_def fmean_def fsum_def fsub_def)

theorem null_metrics_on_zero_denominator_witness:
  "\<exists>res m.
      compare_symbols demo_env [''BBB''] None None = Inr (Some res)
      \<and> map_of (cmp_metrics res) ''BBB'' = Some m
      \<and> cumulative_return m = Some (Fin 3)
      \<and> sharpe m = None"
proof -
  have j: "0 < length (columns \<lparr>columns = [''BBB''], rows = [(At 1, [Fin 1]), (At 2, [Fin 2]), (At 3, [Fin 4])]\<rparr>)"
    by simp
  have ne: "dropna (column 0 \<lparr>columns = [''BBB''], rows = [(At 1, [Fin 1]), (At 2, [Fin 2]), (At 3, [Fin 4])]\<rparr>) \<noteq> []"
    by (simp add: dropna_def column_def is_nan_def)
  from null_metrics_on_zero_denominator [OF demo_fetch_bbb demo_panels_bbb j ne refl refl refl]
  show ?thesis
    by (simp add: dropna_def column_def is_nan_def demo_std_bbb fsub_def) blast
qed

lemma demo_fetch_aaa:
  "fetch_series demo_env None None [''AAA''] [] = Inr [(''AAA'', [(At 1, Fin 0), (At 2, Fin 5)])]"
  by (simp add: demo_eval)

lemma demo_panels_aaa:
  "build_panels demo_env [(''AAA'', [(At 1, Fin 0), (At 2, Fin 5)])] =
     Inr (\<lparr>columns = [''AAA''], rows = [(At 1, [Fin 0]), (At 2, [Fin 5])]\<rparr>,
          \<lparr>columns = [''AAA''], rows = [(At 2, [PInf])]\<rparr>)"
  by (simp add: panel_eval demo_env_def upper_def upper_char_def)

lemma demo_metrics_aaa:
  "volatility (symbol_metrics None [Fin 0, Fin 5] [PInf]) = Some NaN"
  "sharpe (symbol_metrics None [Fin 0, Fin 5] [PInf]) = Some NaN"
  by (simp_all add: symbol_metrics_def dropna_def is_nan_def fstd0_def fmean_def fsum_def fsub_def
      truthy_def daily_intervals_def Let_def)

text \<open>
  Claim C9, at a price series that starts at zero. Symbol AAA has closes 0 then 5: the
  return of the second row is 5/0 - 1, an infinity; the mean of the returns is infinite
  and their standard deviation is NaN, so \<open>compare_symbols\<close> returns NaN as
  \<open>volatility\<close> and as \<open>sharpe\<close>.
\<close>

theorem metrics_nan_after_zero_price:
  "\<exists>res m.
      compare_symbols demo_env [''AAA''] None None = Inr (Some res)
      \<and> map_of (cmp_metrics res) ''AAA'' = Some m
      \<and> volatility m = Some NaN
      \<and> sharpe m = Some NaN"
proof -
  have j: "0 < length (columns \<lparr>columns = [''AAA''], rows = [(At 1, [Fin 0]), (At 2, [Fin 5])]\<rparr>)"
    by simp
  from compare_symbols_metric [OF demo_fetch_aaa demo_panels_aaa j] demo_metrics_aaa
  show ?thesis
    by (intro exI [of _ "\<lparr>cmp_metrics = all_metrics None
           \<lparr>columns = [''AAA''], rows = [(At 1, [Fin 0]), (At 2, [Fin 5])]\<rparr>
           \<lparr>columns = [''AAA''], rows = [(At 2, [PInf])]\<rparr>,
         cmp_correlation = correlation \<lparr>columns = [''AAA''], rows = [(At 2, [PInf])]\<rparr>\<rparr>"]
         exI [of _ "symbol_metrics None [Fin 0, Fin 5] [PInf]"])
       (simp add: column_def)
qed

section \<open>The correlation matrix\<close>

lemma correlation_distinct:
  assumes "distinct (columns returns)"
  shows "correlation returns =
           zip (columns returns)
             (map (\<lambda>j. zip (columns returns)
                         (map (\<lambda>i. round4 (fillna0 (corr_entry returns i j)))
                            [0..<length (columns returns)]))
                [0..<length (columns returns)])"
proof -
  let ?cols = "zip [0..<length (columns returns)] (columns returns)"
  have d: "distinct (map snd ?cols)" "snd ` set ?cols \<inter> fst ` set [] = {}"
    using assms by simp_all
  have inner: "fold (\<lambda>(i, r) inner. AList.update r (round4 (fillna0 (corr_entry returns i j))) inner) ?cols []
      = zip (columns returns)
          (map (\<lambda>i. round4 (fillna0 (corr_entry returns i j))) [0..<length (columns returns)])" for j
    using fold_update_fresh [OF d(1), of "[]" "\<lambda>i. round4 (fillna0 (corr_entry returns i j))"]
    by (simp add: indexed_as_zip)
  show ?thesis
    unfolding correlation_def Let_def inner
    using fold_update_fresh [OF d(1), of "[]"
        "\<lambda>j. zip (columns returns)
          (map (\<lambda>i. round4 (fillna0 (corr_entry returns i j))) [0..<length (columns returns)])"]
    by (simp add: indexed_as_zip)
qed

lemma correlation_entry:
  assumes "distinct (columns returns)" "i < length (columns returns)" "j < length (columns returns)"
  shows "entry_of (correlation returns) (columns returns ! j) (columns returns ! i) =
           Some (round4 (fillna0 (corr_entry returns i j)))"
proof -
  let ?n = "length (columns returns)"
  let ?inner = "\<lambda>j. zip (columns returns)
                         (map (\<lambda>i. round4 (fillna0 (corr_entry returns i j))) [0..<?n])"
  have "map_of (zip (columns returns) (map ?inner [0..<?n])) (columns returns ! j)
          = Some (map ?inner [0..<?n] ! j)"
    by (rule map_of_zip_nth) (use assms in simp_all)
  then have o: "map_of (correlation returns) (columns returns ! j) = Some (?inner j)"
    using assms(3) by (simp add: correlation_distinct [OF assms(1)])
  have "map_of (?inner j) (columns returns ! i)
          = Some (map (\<lambda>i. round4 (fillna0 (corr_entry returns i j))) [0..<?n] ! i)"
    by (rule map_of_zip_nth) (use assms in simp_all)
  then show ?thesis using o assms(2) by (simp add: entry_of_def)
qed

lemma finite_pairs_swap:
  "finite_pairs ys xs = map prod.swap (finite_pairs xs ys)"
proof -
  have "zip ys xs = map prod.swap (zip xs ys)"
    by (induction xs arbitrary: ys) (auto simp: zip_Cons1 split: list.splits)
  then show ?thesis
    by (simp add: finite_pairs_def filter_map comp_def conj_commute)
qed

lemma pearson_swap: "pearson (map prod.swap ps) = pearson ps"
  unfolding pearson_def Let_def
  apply (simp only: length_map map_map comp_def fst_swap snd_swap map_is_Nil_conv)
  apply (simp only: mult.commute)
  done

lemma corr_entry_sym: "corr_entry returns i j = corr_entry returns j i"
  by (simp add: corr_entry_def finite_pairs_swap [of "column i returns"] pearson_swap)

lemma pearson_cases: "pearson ps = NaN \<or> (\<exists>x. pearson ps = Fin x)"
  by (simp add: pearson_def Let_def)

lemma rounded_entry: "\<exists>k::int. round4 (fillna0 (pearson ps)) = Fin (of_int k / 10000)"
proof -
  from pearson_cases [of ps] show ?thesis
  proof
    assume "pearson ps = NaN"
    then have "round4 (fillna0 (pearson ps)) = Fin (of_int 0 / 10000)"
      by (simp add: fillna0_def is_nan_def rint_def)
    then show ?thesis by blast
  next
    assume "\<exists>x. pearson ps = Fin x"
    then obtain x where "pearson ps = Fin x" by blast
    then have "round4 (fillna0 (pearson ps)) = Fin (of_int (rint (x * 10000)) / 10000)"
      by (simp add: fillna0_def is_nan_def)
    then show ?thesis by blast
  qed
qed

lemma finite_pairs_same:
  "finite_pairs xs xs = map (\<lambda>v. (v, v)) (map the_real (filter is_finite xs))"
  by (induction xs) (auto simp: finite_pairs_def)

lemma sum_sq_nonneg: "0 \<le> sum_list (map (\<lambda>v. (v - m) * (v - m)) (vs :: real list))"
  by (rule sum_list_nonneg) auto

lemma sum_sq_zero_iff:
  "sum_list (map (\<lambda>v. (v - m) * (v - m)) (vs :: real list)) = 0 \<longleftrightarrow> (\<forall>v \<in> set vs. v = m)"
proof -
  have "sum_list (map (\<lambda>v. (v - m) * (v - m)) vs) = 0
          \<longleftrightarrow> (\<forall>x \<in> set (map (\<lambda>v. (v - m) * (v - m)) vs). x = 0)"
    by (rule sum_list_nonneg_eq_0_iff) auto
  then show ?thesis by auto
qed

lemma pearson_diag:
  "pearson (map (\<lambda>v. (v, v)) vs) =
     (if vs \<noteq> [] \<and> (\<exists>v \<in> set vs. v \<noteq> sum_list vs / real (length vs)) then Fin 1 else NaN)"
proof -
  define m where "m = sum_list vs / real (length vs)"
  define S where "S = sum_list (map (\<lambda>v. (v - m) * (v - m)) vs)"
  have S0: "0 \<le> S" unfolding S_def by (rule sum_sq_nonneg)
  have Sz: "S = 0 \<longleftrightarrow> (\<forall>v \<in> set vs. v = m)" unfolding S_def by (rule sum_sq_zero_iff)
  have P: "pearson (map (\<lambda>v. (v, v)) vs) =
             (if vs = [] then NaN
              else if sqrt (S * S) \<noteq> 0 then Fin (max (- 1) (min 1 (S / sqrt (S * S)))) else NaN)"
    unfolding pearson_def Let_def S_def m_def
    by (simp only: length_map map_map comp_def fst_conv snd_conv map_is_Nil_conv map_ident id_apply)
  have "sqrt (S * S) = S" using S0 by simp
  then have "pearson (map (\<lambda>v. (v, v)) vs) =
             (if vs = [] then NaN else if S \<noteq> 0 then Fin 1 else NaN)"
    using P by simp
  then show ?thesis using Sz unfolding m_def by auto
qed

lemma sum_list_all_equal:
  "\<forall>v \<in> set vs. v = c \<Longrightarrow> sum_list vs = real (length vs) * (c :: real)"
  by (induction vs) (auto simp: algebra_simps)

lemma not_all_mean_iff:
  fixes vs :: "real list"
  shows "(vs \<noteq> [] \<and> (\<exists>v \<in> set vs. v \<noteq> sum_list vs / real (length vs)))
           \<longleftrightarrow> (\<exists>v \<in> set vs. v \<noteq> hd vs)"
proof
  assume a: "vs \<noteq> [] \<and> (\<exists>v \<in> set vs. v \<noteq> sum_list vs / real (length vs))"
  show "\<exists>v \<in> set vs. v \<noteq> hd vs"
  proof (rule ccontr)
    assume "\<not> (\<exists>v \<in> set vs. v \<noteq> hd vs)"
    then have all: "\<forall>v \<in> set vs. v = hd vs" by blast
    from sum_list_all_equal [OF all] a have "sum_list vs / real (length vs) = hd vs"
      by simp
    with all a show False by auto
  qed
next
  assume b: "\<exists>v \<in> set vs. v \<noteq> hd vs"
  then have ne: "vs \<noteq> []" by auto
  have "\<exists>v \<in> set vs. v \<noteq> sum_list vs / real (length vs)"
  proof (rule ccontr)
    assume "\<not> (\<exists>v \<in> set vs. v \<noteq> sum_list vs / real (length vs))"
    then have all: "\<forall>v \<in> set vs. v = sum_list vs / real (length vs)" by blast
    moreover have "hd vs \<in> set vs" using ne by simp
    ultimately have "hd vs = sum_list vs / real (length vs)" by blast
    with all b show False by auto
  qed
  with ne show "vs \<noteq> [] \<and> (\<exists>v \<in> set vs. v \<noteq> sum_list vs / real (length vs))" by simp
qed

lemma the_real_inj: "is_finite x \<Longrightarrow> is_finite y \<Longrightarrow> the_real x = the_real y \<longleftrightarrow> x = y"
  by (cases x; cases y) (auto simp: is_finite_def the_real_def)

lemma has_spread_iff:
  "has_spread xs \<longleftrightarrow>
     (\<exists>v \<in> set (map the_real (filter is_finite xs)). v \<noteq> hd (map the_real (filter is_finite xs)))"
proof -
  define fs where "fs = filter is_finite xs"
  have fin: "\<forall>x \<in> set fs. is_finite x" by (simp add: fs_def)
  show ?thesis
  proof (cases "fs = []")
    case True
    then show ?thesis by (simp add: has_spread_def fs_def [symmetric])
  next
    case False
    then have h: "hd fs \<in> set fs" "hd (map the_real fs) = the_real (hd fs)"
      by (simp_all add: hd_map)
    have "(\<exists>x \<in> set fs. x \<noteq> hd fs) \<longleftrightarrow> (\<exists>x \<in> set fs. the_real x \<noteq> the_real (hd fs))"
      using fin h(1) the_real_inj by blast
    then show ?thesis
      by (simp add: has_spread_def fs_def [symmetric] Let_def list_ex_iff h(2))
  qed
qed

lemma corr_entry_diag:
  "round4 (fillna0 (corr_entry returns i i)) =
     (if has_spread (column i returns) then Fin 1 else Fin 0)"
proof -
  let ?vs = "map the_real (filter is_finite (column i returns))"
  have "corr_entry returns i i = (if \<exists>v \<in> set ?vs. v \<noteq> hd ?vs then Fin 1 else NaN)"
    unfolding corr_entry_def finite_pairs_same pearson_diag not_all_mean_iff ..
  moreover have "round4 (fillna0 (Fin 1)) = Fin 1" "round4 (fillna0 NaN) = Fin 0"
    by (simp_all add: fillna0_def is_nan_def rint_def)
  ultimately show ?thesis
    unfolding has_spread_iff by (simp only: if_distrib [of "\<lambda>x. round4 (fillna0 x)"])
qed

lemma corr_entry_no_data:
  assumes "list_all (\<lambda>x. \<not> is_finite x) (column i returns)"
  shows "round4 (fillna0 (corr_entry returns i j)) = Fin 0"
proof -
  have "filter (\<lambda>p. is_finite (fst p) \<and> is_finite (snd p))
          (zip (column i returns) (column j returns)) = []"
    using assms by (auto simp: filter_empty_conv list_all_iff dest: set_zip_leftD)
  then have "corr_entry returns i j = NaN"
    by (simp add: corr_entry_def finite_pairs_def pearson_def)
  then show ?thesis by (simp add: fillna0_def is_nan_def rint_def)
qed

lemma correlation_keys:
  assumes "distinct (columns returns)"
  shows "map fst (correlation returns) = columns returns"
  by (simp add: correlation_distinct [OF assms])

lemma correlation_inner_keys:
  assumes "distinct (columns returns)" "i < length (columns returns)"
  shows "\<exists>inner. map_of (correlation returns) (columns returns ! i) = Some inner
           \<and> map fst inner = columns returns"
proof -
  let ?n = "length (columns returns)"
  let ?inner = "\<lambda>j. zip (columns returns)
                         (map (\<lambda>i. round4 (fillna0 (corr_entry returns i j))) [0..<?n])"
  have "map_of (zip (columns returns) (map ?inner [0..<?n])) (columns returns ! i)
          = Some (map ?inner [0..<?n] ! i)"
    by (rule map_of_zip_nth) (use assms in simp_all)
  then have "map_of (correlation returns) (columns returns ! i) = Some (?inner i)"
    using assms(2) by (simp add: correlation_distinct [OF assms(1)])
  moreover have "map fst (?inner i) = columns returns" by simp
  ultimately show ?thesis by blast
qed

text \<open>
  Claim C4, as the code has it. For a returns panel with distinct column labels, the
  mapping \<open>compare_symbols\<close> returns as \<open>correlation\<close> has every column label
  as a key, at both levels; it is symmetric; an entry is the pairwise correlation with NaN
  replaced by 0.0 and then rounded, a whole multiple of 0.0001; the diagonal entry of a
  symbol is 1.0 when its finite returns are not all the same value and 0.0 otherwise (a
  constant series, or fewer than two finite returns); a symbol without a finite return has
  0.0 in every entry.
\<close>

theorem correlation_matrix_properties:
  assumes "distinct (columns returns)"
    and "i < length (columns returns)" and "j < length (columns returns)"
    and "a = columns returns ! i" and "b = columns returns ! j"
  shows "map fst (correlation returns) = columns returns
       \<and> (\<exists>inner. map_of (correlation returns) a = Some inner \<and> map fst inner = columns returns)
       \<and> entry_of (correlation returns) a b = entry_of (correlation returns) b a
       \<and> entry_of (correlation returns) a b = Some (round4 (fillna0 (corr_entry returns i j)))
       \<and> (corr_entry returns i j = NaN \<longrightarrow> entry_of (correlation returns) a b = Some (Fin 0))
       \<and> (\<exists>k::int. entry_of (correlation returns) a b = Some (Fin (of_int k / 10000)))
       \<and> entry_of (correlation returns) a a =
           Some (if has_spread (column i returns) then Fin 1 else Fin 0)
       \<and> (list_all (\<lambda>x. \<not> is_finite x) (column i returns) \<longrightarrow>
            entry_of (correlation returns) a b = Some (Fin 0))"
proof -
  have ab: "entry_of (correlation returns) a b = Some (round4 (fillna0 (corr_entry returns i j)))"
    using correlation_entry [OF assms(1) assms(3) assms(2)] assms(4,5)
    by (simp add: corr_entry_sym [of returns i j])
  have ba: "entry_of (correlation returns) b a = Some (round4 (fillna0 (corr_entry returns i j)))"
    using correlation_entry [OF assms(1) assms(2) assms(3)] assms(4,5) by simp
  have aa: "entry_of (correlation returns) a a =
              Some (if has_spread (column i returns) then Fin 1 else Fin 0)"
    using correlation_entry [OF assms(1) assms(2) assms(2)] assms(4)
    by (simp add: corr_entry_diag)
  have nan: "corr_entry returns i j = NaN \<longrightarrow> entry_of (correlation returns) a b = Some (Fin 0)"
    using ab by (simp add: fillna0_def is_nan_def rint_def)
  have rnd: "\<exists>k::int. entry_of (correlation returns) a b = Some (Fin (of_int k / 10000))"
    using rounded_entry [of "finite_pairs (column i returns) (column j returns)"] ab
    by (simp add: corr_entry_def)
  have nodata: "list_all (\<lambda>x. \<not> is_finite x) (column i returns) \<longrightarrow>
            entry_of (correlation returns) a b = Some (Fin 0)"
    using ab corr_entry_no_data [of i returns j] by simp
  show ?thesis
    using correlation_keys [OF assms(1)] correlation_inner_keys [OF assms(1,2)] assms(4)
      ab ba aa nan rnd nodata
    by simp
qed

theorem correlation_matrix_properties_witness:
  "map fst (correlation \<lparr>columns = [''AAA'', ''BBB''],
                         rows = [(At 2, [Fin 1, Fin 1]), (At 3, [Fin 0, Fin 1])]\<rparr>) = [''AAA'', ''BBB'']
   \<and> entry_of (correlation \<lparr>columns = [''AAA'', ''BBB''],
                            rows = [(At 2, [Fin 1, Fin 1]), (At 3, [Fin 0, Fin 1])]\<rparr>) ''AAA'' ''BBB''
       = entry_of (correlation \<lparr>columns = [''AAA'', ''BBB''],
                            rows = [(At 2, [Fin 1, Fin 1]), (At 3, [Fin 0, Fin 1])]\<rparr>) ''BBB'' ''AAA''
   \<and> entry_of (correlation \<lparr>columns = [''AAA'', ''BBB''],
                            rows = [(At 2, [Fin 1, Fin 1]), (At 3, [Fin 0, Fin 1])]\<rparr>) ''AAA'' ''AAA''
       = Some (Fin 1)"
proof -
  let ?R = "\<lparr>columns = [''AAA'', ''BBB''], rows = [(At 2, [Fin 1, Fin 1]), (At 3, [Fin 0, Fin 1])]\<rparr>"
  have d: "distinct (columns ?R)" by simp
  have i: "0 < length (columns ?R)" and j: "1 < length (columns ?R)" by simp_all
  have a: "''AAA'' = columns ?R ! 0" and b: "''BBB'' = columns ?R ! 1" by simp_all
  have s: "has_spread (column 0 ?R)"
    by (simp add: has_spread_def column_def is_finite_def)
  from correlation_matrix_properties [OF d i j a b] s show ?thesis by simp
qed

text \<open>
  Claim C4 as stated fails on the diagonal: symbol BBB with closes 1, 2, 4 has two valid
  returns, both 1, so its self-correlation is undefined and the entry returned is 0.0,
  not 1.0.
\<close>

theorem correlation_diagonal_constant_series:
  "fetch_series demo_env None None [''BBB''] [] =
     Inr [(''BBB'', [(At 1, Fin 1), (At 2, Fin 2), (At 3, Fin 4)])]
   \<and> build_panels demo_env [(''BBB'', [(At 1, Fin 1), (At 2, Fin 2), (At 3, Fin 4)])] =
       Inr (\<lparr>columns = [''BBB''], rows = [(At 1, [Fin 1]), (At 2, [Fin 2]), (At 3, [Fin 4])]\<rparr>,
            \<lparr>columns = [''BBB''], rows = [(At 2, [Fin 1]), (At 3, [Fin 1])]\<rparr>)
   \<and> length (dropna (column 0 \<lparr>columns = [''BBB''], rows = [(At 2, [Fin 1]), (At 3, [Fin 1])]\<rparr>)) = 2
   \<and> entry_of (correlation \<lparr>columns = [''BBB''], rows = [(At 2, [Fin 1]), (At 3, [Fin 1])]\<rparr>)
        ''BBB'' ''BBB'' = Some (Fin 0)"
proof (intro conjI)
  show "fetch_series demo_env None None [''BBB''] [] =
     Inr [(''BBB'', [(At 1, Fin 1), (At 2, Fin 2), (At 3, Fin 4)])]"
    by (rule demo_fetch_bbb)
  show "build_panels demo_env [(''BBB'', [(At 1, Fin 1), (At 2, Fin 2), (At 3, Fin 4)])] =
       Inr (\<lparr>columns = [''BBB''], rows = [(At 1, [Fin 1]), (At 2, [Fin 2]), (At 3, [Fin 4])]\<rparr>,
            \<lparr>columns = [''BBB''], rows = [(At 2, [Fin 1]), (At 3, [Fin 1])]\<rparr>)"
    by (rule demo_panels_bbb)
  show "length (dropna (column 0 \<lparr>columns = [''BBB''], rows = [(At 2, [Fin 1]), (At 3, [Fin 1])]\<rparr>)) = 2"
    by (simp add: dropna_def column_def is_nan_def)
  show "entry_of (correlation \<lparr>columns = [''BBB''], rows = [(At 2, [Fin 1]), (At 3, [Fin 1])]\<rparr>)
        ''BBB'' ''BBB'' = Some (Fin 0)"
    by (simp add: entry_of_def correlation_def corr_entry_def finite_pairs_def pearson_def
        column_def is_finite_def the_real_def fillna0_def is_nan_def rint_def)
qed

end
